theory Spec2Isabelle
  imports Main "HOL-Library.AList" "HOL-Library.Sublist"
begin

section \<open>JavaScript values\<close>

text \<open>
  The settings handled by \<^verbatim>\<open>project.ts\<close> are JSON data. A value is one of the JSON
  shapes plus \<^verbatim>\<open>undefined\<close>. An object is the list of its own properties in insertion
  order; an array carries its elements and, since \<^verbatim>\<open>lodash/set\<close> may assign a named
  property to an array, its named properties as well. Values are immutable trees here, so the
  in-place writes of \<^verbatim>\<open>lodash/set\<close> become functional updates of the tree they are
  applied to. A locally stored value that is an object is shared by the code, not copied; the
  trees agree with the code as long as no later write runs through such a value, which holds
  when the written paths are independent (see \<open>independent\<close> below).

  Property keys are field names of the data. Members that a JavaScript value has without
  owning them (\<^verbatim>\<open>length\<close>, the indices of a string or an array, the members of the
  prototypes) are not modelled; the theorems about property paths therefore ask for keys that
  are field names (\<open>fieldKey\<close>), for plain objects above the keys a value is read
  through (\<open>plainAlong\<close>) and for no array above the keys a value is written through
  (\<open>arrayFree\<close>).
  A property path such as \<^verbatim>\<open>'luis.name'\<close> is given by the list of its keys,
  \<open>[''luis'', ''name'']\<close>; \<open>joinDots\<close> gives back the string.
\<close>

datatype jv =
    JUndef
  | JNull
  | JBool bool
  | JNum int
  | JStr string
  | JArr "jv list" "(string \<times> jv) list"
  | JObj "(string \<times> jv) list"

type_synonym jobject = "(string \<times> jv) list"
type_synonym path = "string list"

fun truthy :: "jv \<Rightarrow> bool" where
  "truthy JUndef = False"
| "truthy JNull = False"
| "truthy (JBool b) = b"
| "truthy (JNum n) = (n \<noteq> 0)"
| "truthy (JStr s) = (s \<noteq> [])"
| "truthy (JArr es ps) = True"
| "truthy (JObj ps) = True"

fun nullish :: "jv \<Rightarrow> bool" where
  "nullish JUndef = True"
| "nullish JNull = True"
| "nullish v = False"

fun isObject :: "jv \<Rightarrow> bool" where
  "isObject (JArr es ps) = True"
| "isObject (JObj ps) = True"
| "isObject v = False"

fun isArray :: "jv \<Rightarrow> bool" where
  "isArray (JArr es ps) = True"
| "isArray v = False"

fun isPlainObject :: "jv \<Rightarrow> bool" where
  "isPlainObject (JObj ps) = True"
| "isPlainObject v = False"

fun props :: "jv \<Rightarrow> jobject" where
  "props (JObj ps) = ps"
| "props (JArr es ps) = ps"
| "props v = []"

text \<open>\<^verbatim>\<open>v[k]\<close>: the own property \<open>k\<close> of \<open>v\<close>, \<^verbatim>\<open>undefined\<close> when there is none.\<close>

definition getProp :: "jv \<Rightarrow> string \<Rightarrow> jv" where
  "getProp v k = (case map_of (props v) k of Some x \<Rightarrow> x | None \<Rightarrow> JUndef)"

text \<open>\<^verbatim>\<open>k in Object(v)\<close>, for own properties.\<close>

definition hasKey :: "jv \<Rightarrow> string \<Rightarrow> bool" where
  "hasKey v k = (map_of (props v) k \<noteq> None)"

text \<open>\<^verbatim>\<open>v[k] = x\<close> on an object or array; a new key goes last, an old one keeps its place.\<close>

fun assignValue :: "jv \<Rightarrow> string \<Rightarrow> jv \<Rightarrow> jv" where
  "assignValue (JObj ps) k x = JObj (AList.update k x ps)"
| "assignValue (JArr es ps) k x = JArr es (AList.update k x ps)"
| "assignValue v k x = v"

section \<open>lodash get, set and cloneDeep\<close>

text \<open>The path string of a key list.\<close>

fun joinDots :: "path \<Rightarrow> string" where
  "joinDots [] = []"
| "joinDots [k] = k"
| "joinDots (k # k' # ks) = k @ ''.'' @ joinDots (k' # ks)"

text \<open>
  \<^verbatim>\<open>castPath\<close>: a path string with a dot is split into its keys, unless the object has a
  property named by the whole string (\<^verbatim>\<open>isKey\<close>), which is then the only key.
\<close>

definition castPath :: "jv \<Rightarrow> path \<Rightarrow> path" where
  "castPath v p = (if length p > 1 \<and> hasKey v (joinDots p) then [joinDots p] else p)"

text \<open>
  \<^verbatim>\<open>baseGet\<close> walks the keys while the current value is neither \<^verbatim>\<open>null\<close> nor
  \<^verbatim>\<open>undefined\<close>, and yields \<^verbatim>\<open>undefined\<close> when it stops early or the path is empty.
\<close>

fun walk :: "jv \<Rightarrow> path \<Rightarrow> jv" where
  "walk v [] = v"
| "walk v (k # ks) = (if nullish v then JUndef else walk (getProp v k) ks)"

definition objectGet :: "jv \<Rightarrow> path \<Rightarrow> jv" where
  "objectGet v p =
     (if nullish v then JUndef
      else let keys = castPath v p in if keys = [] then JUndef else walk v keys)"

definition objectGetDefault :: "jv \<Rightarrow> path \<Rightarrow> jv \<Rightarrow> jv" where
  "objectGetDefault v p d = (let r = objectGet v p in if r = JUndef then d else r)"

text \<open>
  \<^verbatim>\<open>baseSet\<close>: every key but the last keeps the value under it when that is an object
  and replaces it by a new empty object otherwise; the last key receives the value. (Before a
  key that is an array index lodash creates an array instead; field names are not indices.)
\<close>

fun setPath :: "jv \<Rightarrow> path \<Rightarrow> jv \<Rightarrow> jv" where
  "setPath v [] x = v"
| "setPath v [k] x = assignValue v k x"
| "setPath v (k # k' # ks) x =
     assignValue v k (setPath (if isObject (getProp v k) then getProp v k else JObj []) (k' # ks) x)"

definition objectSet :: "jv \<Rightarrow> path \<Rightarrow> jv \<Rightarrow> jv" where
  "objectSet v p x = (if isObject v then setPath v (castPath v p) x else v)"

text \<open>
  \<^verbatim>\<open>cloneDeep\<close> copies an object with its own properties and an array with its elements
  only: a named property of an array is not copied. The one exception is the result of a
  regular-expression match, an array that starts with a string and has a property
  \<^verbatim>\<open>index\<close>: its \<^verbatim>\<open>index\<close> and \<^verbatim>\<open>input\<close> are assigned to the copy as they are.
\<close>

fun isString :: "jv \<Rightarrow> bool" where
  "isString (JStr s) = True"
| "isString v = False"

definition matchProps :: "jv list \<Rightarrow> jobject \<Rightarrow> jobject" where
  "matchProps es ps =
     (if es \<noteq> [] \<and> isString (hd es) \<and> map_of ps ''index'' \<noteq> None
      then [(''index'', case map_of ps ''index'' of Some x \<Rightarrow> x | None \<Rightarrow> JUndef),
            (''input'', case map_of ps ''input'' of Some x \<Rightarrow> x | None \<Rightarrow> JUndef)]
      else [])"

fun cloneDeep :: "jv \<Rightarrow> jv" where
  "cloneDeep (JArr es ps) = JArr (map cloneDeep es) (matchProps es ps)"
| "cloneDeep (JObj ps) = JObj (map (\<lambda>(k, x). (k, cloneDeep x)) ps)"
| "cloneDeep v = v"

text \<open>JSON data: no array carries a named property.\<close>

fun json :: "jv \<Rightarrow> bool" where
  "json (JArr es ps) = (ps = [] \<and> (\<forall>e\<in>set es. json e))"
| "json (JObj ps) = (\<forall>(k, x)\<in>set ps. json x)"
| "json v = True"

text \<open>Decimal digits of an array index, the key an element gets when an array is spread.\<close>

fun dec :: "nat \<Rightarrow> string" where
  "dec n = (if n < 10 then [char_of (48 + n)] else dec (n div 10) @ [char_of (48 + n mod 10)])"

declare dec.simps [simp del]

text \<open>\<^verbatim>\<open>{ ...skillData }\<close>: a new object with the own enumerable properties of the value.\<close>

fun spread :: "jv \<Rightarrow> jv" where
  "spread (JObj ps) = JObj ps"
| "spread (JArr es ps) =
     JObj (fold (\<lambda>(k, x) acc. AList.update k x acc) ps (zip (map dec [0..<length es]) es))"
| "spread (JStr s) = JObj (zip (map dec [0..<length s]) (map (\<lambda>c. JStr [c]) s))"
| "spread v = JObj []"

fun elements :: "jv \<Rightarrow> jv list" where
  "elements (JArr es ps) = es"
| "elements v = []"

section \<open>The settings merger\<close>

text \<open>
  \<^verbatim>\<open>SensitiveProperties\<close>, \<^verbatim>\<open>RootBotManagedProperties\<close> and
  \<^verbatim>\<open>convertSkillsToDictionary\<close> come from \<^verbatim>\<open>@bfc/shared\<close> and
  \<^verbatim>\<open>settingStorage\<close> from \<^verbatim>\<open>utils/dialogSettingStorage\<close>; they are parameters
  here: \<open>S\<close> and \<open>M\<close> are the two lists of property paths, \<open>store\<close> maps a project id to
  what \<^verbatim>\<open>settingStorage.get\<close> returns for it (\<open>JUndef\<close> when there is no entry).
  \<^verbatim>\<open>{ ...settings }\<close> is \<open>spread settings\<close>, which is \<open>settings\<close> itself for an object.
\<close>

type_synonym storage = "jv \<Rightarrow> jv"

text \<open>The \<^verbatim>\<open>for (const property of SensitiveProperties)\<close> loop of \<^verbatim>\<open>mergeLocalStorage\<close>.\<close>

fun mergeLoop :: "path list \<Rightarrow> path list \<Rightarrow> jv \<Rightarrow> jv \<Rightarrow> jv" where
  "mergeLoop M [] localSetting mergedSettings = mergedSettings"
| "mergeLoop M (property # rest) localSetting mergedSettings =
     (if property \<in> set M then mergeLoop M rest localSetting mergedSettings
      else let v = objectGet localSetting property
           in mergeLoop M rest localSetting
                (objectSet mergedSettings property (if truthy v then v else JStr [])))"

definition mergeLocalStorage :: "storage \<Rightarrow> path list \<Rightarrow> path list \<Rightarrow> jv \<Rightarrow> jv \<Rightarrow> jv" where
  "mergeLocalStorage store S M projectId settings =
     (let localSetting = store projectId;
          mergedSettings = spread settings
      in if truthy localSetting then mergeLoop M S localSetting mergedSettings
         else mergedSettings)"

definition mergeLuisName :: "jv \<Rightarrow> jv \<Rightarrow> jv" where
  "mergeLuisName settings botName =
     (let mergedSettings = cloneDeep settings;
          g = objectGetDefault mergedSettings [''luis'', ''name''] (JStr []);
          luisName = (if truthy g then g else botName)
      in objectSet mergedSettings [''luis'', ''name''] luisName)"

definition getMergedSettings ::
  "storage \<Rightarrow> path list \<Rightarrow> path list \<Rightarrow> (jv list \<Rightarrow> jv) \<Rightarrow> jv \<Rightarrow> jv \<Rightarrow> jv \<Rightarrow> jv" where
  "getMergedSettings store S M convertSkillsToDictionary projectId settings botName =
     (let mergedSettings = mergeLocalStorage store S M projectId settings;
          mergedSettings = mergeLuisName mergedSettings botName
      in if isArray (getProp mergedSettings ''skill'')
         then let skillsArr = map spread (elements (getProp mergedSettings ''skill''))
              in assignValue mergedSettings ''skill'' (convertSkillsToDictionary skillsArr)
         else mergedSettings)"

section \<open>Well-formed property paths\<close>

text \<open>
  Two property paths are independent when neither is a prefix of the other: a write to one
  then neither replaces nor runs through the value at the other.
\<close>

definition independent :: "path \<Rightarrow> path \<Rightarrow> bool" where
  "independent p q = (\<not> prefix p q \<and> \<not> prefix q p)"











text \<open>Sample storage contents and a sample skill conversion, used to run the merger.\<close>

definition noStorage :: storage where
  "noStorage projectId = JUndef"

definition passwordStorage :: storage where
  "passwordStorage projectId = JObj [(''MicrosoftAppPassword'', JStr ''s'')]"


definition noSkills :: "jv list \<Rightarrow> jv" where
  "noSkills skills = JNull"

section \<open>Exceptions\<close>

text \<open>
  A computation that may throw yields \<open>Inl ex\<close> for the thrown value \<open>ex\<close>, which in
  JavaScript is any value, and \<open>Inr x\<close> for a normal result. An \<^verbatim>\<open>async\<close> function
  that rejects is \<open>Inl\<close> as well: \<^verbatim>\<open>await\<close> rethrows the rejection.
\<close>

type_synonym 'a result = "jv + 'a"

definition typeError :: jv where
  "typeError = JObj [(''name'', JStr ''TypeError'')]"

definition thenDo :: "'a result \<Rightarrow> ('a \<Rightarrow> 'b result) \<Rightarrow> 'b result" where
  "thenDo r f = (case r of Inl ex \<Rightarrow> Inl ex | Inr x \<Rightarrow> f x)"

text \<open>\<^verbatim>\<open>try { body } catch (ex) { handler }\<close>\<close>

definition tryCatch :: "'a result \<Rightarrow> (jv \<Rightarrow> 'a result) \<Rightarrow> 'a result" where
  "tryCatch body handler = (case body of Inl ex \<Rightarrow> handler ex | Inr x \<Rightarrow> Inr x)"

text \<open>\<^verbatim>\<open>v.k\<close> throws a TypeError on \<^verbatim>\<open>null\<close> and \<^verbatim>\<open>undefined\<close>; \<^verbatim>\<open>v?.k\<close> yields \<^verbatim>\<open>undefined\<close> there.\<close>

definition member :: "jv \<Rightarrow> string \<Rightarrow> jv result" where
  "member v k = (if nullish v then Inl typeError else Inr (getProp v k))"

definition optMember :: "jv \<Rightarrow> string \<Rightarrow> jv" where
  "optMember v k = (if nullish v then JUndef else getProp v k)"

text \<open>\<^verbatim>\<open>a ?? b\<close>\<close>

definition coalesce :: "jv \<Rightarrow> jv \<Rightarrow> jv" where
  "coalesce a b = (if nullish a then b else a)"

text \<open>\<^verbatim>\<open>v[0]\<close>\<close>

fun index0 :: "jv \<Rightarrow> jv result" where
  "index0 JUndef = Inl typeError"
| "index0 JNull = Inl typeError"
| "index0 (JArr (e # es) ps) = Inr e"
| "index0 (JStr (c # cs)) = Inr (JStr [c])"
| "index0 v = Inr (getProp v ''0'')"

text \<open>
  \<^verbatim>\<open>v.map(({ id, content }) => f(id, content))\<close>: a TypeError unless \<open>v\<close> is an array,
  and a TypeError when an element cannot be destructured.
\<close>

fun mapResources :: "(jv \<Rightarrow> jv \<Rightarrow> jv) \<Rightarrow> jv list \<Rightarrow> jv list result" where
  "mapResources f [] = Inr []"
| "mapResources f (e # es) =
     (if nullish e then Inl typeError
      else thenDo (mapResources f es) (\<lambda>rest. Inr (f (getProp e ''id'') (getProp e ''content'') # rest)))"

definition arrayMap :: "(jv \<Rightarrow> jv \<Rightarrow> jv) \<Rightarrow> jv \<Rightarrow> jv result" where
  "arrayMap f v =
     (if isArray v then thenDo (mapResources f (elements v)) (\<lambda>xs. Inr (JArr xs [])) else Inl typeError)"

section \<open>The project loader\<close>

definition emptyResource :: jv where
  "emptyResource = JObj [(''Sections'', JArr [] []), (''Errors'', JArr [] []), (''Content'', JStr [])]"

definition emptyLgFile :: "jv \<Rightarrow> jv \<Rightarrow> jv" where
  "emptyLgFile fileId content =
     JObj [(''id'', fileId), (''content'', content), (''diagnostics'', JArr [] []),
           (''templates'', JArr [] []), (''allTemplates'', JArr [] []), (''imports'', JArr [] []),
           (''isContentUnparsed'', JBool True)]"

definition emptyLuFile :: "jv \<Rightarrow> jv \<Rightarrow> jv" where
  "emptyLuFile fileId content =
     JObj [(''id'', fileId), (''content'', content), (''diagnostics'', JArr [] []),
           (''intents'', JArr [] []), (''allIntents'', JArr [] []), (''empty'', JBool True),
           (''resource'', emptyResource), (''imports'', JArr [] []),
           (''isContentUnparsed'', JBool True)]"

definition emptyQnaFile :: "jv \<Rightarrow> jv \<Rightarrow> jv" where
  "emptyQnaFile fileId content =
     JObj [(''id'', fileId), (''content'', content), (''diagnostics'', JArr [] []),
           (''qnaSections'', JArr [] []), (''imports'', JArr [] []), (''options'', JArr [] []),
           (''empty'', JBool True), (''resource'', emptyResource),
           (''isContentUnparsed'', JBool True)]"

text \<open>
  What the loader calls outside \<^verbatim>\<open>project.ts\<close>: the HTTP client, the file indexer, the
  validator and the lg worker, each of which may throw or reject, and the storage, property
  lists and skill conversion of the settings merger.
\<close>

record collaborators =
  settingStorage_get :: storage
  sensitiveProperties :: "path list"
  rootBotManagedProperties :: "path list"
  convertSkills :: "jv list \<Rightarrow> jv"
  httpClient_put :: "string \<Rightarrow> jv \<Rightarrow> jv result"
  httpClient_get :: "string \<Rightarrow> jv result"
  indexer_index :: "jv \<Rightarrow> jv \<Rightarrow> jv result"
  lgWorker_addProject :: "jv \<Rightarrow> jv result"
  botIndexer_validate :: "jv \<Rightarrow> jv result"

record fetchResult =
  botFiles :: jv
  projectData :: jv
  error :: jv

definition loadProjectData :: "collaborators \<Rightarrow> jv \<Rightarrow> fetchResult result" where
  "loadProjectData env data =
     (if nullish data then Inl typeError
      else
        let files = getProp data ''files'';
            botName = getProp data ''botName'';
            settings = getProp data ''settings'';
            projectId = getProp data ''id'';
            mergedSettings = getMergedSettings (settingStorage_get env) (sensitiveProperties env)
              (rootBotManagedProperties env) (convertSkills env) projectId settings botName
        in thenDo (indexer_index env files botName) (\<lambda>indexedFiles.
           if nullish indexedFiles then Inl typeError
           else
             thenDo (lgWorker_addProject env projectId) (\<lambda>_.
             thenDo (arrayMap emptyLgFile (getProp indexedFiles ''lgResources'')) (\<lambda>lgFiles.
             thenDo (arrayMap emptyLuFile (getProp indexedFiles ''luResources'')) (\<lambda>luFiles.
             thenDo (arrayMap emptyQnaFile (getProp indexedFiles ''qnaResources'')) (\<lambda>qnaFiles.
               let assets = assignValue (assignValue (assignValue (spread indexedFiles)
                     ''lgFiles'' lgFiles) ''luFiles'' luFiles) ''qnaFiles'' qnaFiles
               in thenDo (index0 (getProp assets ''botProjectSpaceFiles'')) (\<lambda>botProjectFile.
                  thenDo (botIndexer_validate env
                      (assignValue (assignValue assets ''setting'' settings)
                         ''botProjectFile'' botProjectFile)) (\<lambda>diagnostics.
                    Inr \<lparr>botFiles = assignValue (assignValue assets ''mergedSettings'' mergedSettings)
                                      ''diagnostics'' diagnostics,
                         projectData = data,
                         error = JUndef\<rparr>))))))))"

definition fetchProjectDataByPath :: "collaborators \<Rightarrow> string \<Rightarrow> jv \<Rightarrow> bool \<Rightarrow> fetchResult result" where
  "fetchProjectDataByPath env path storageId isRootBot =
     tryCatch
       (thenDo (httpClient_put env ''/projects/open''
            (JObj [(''path'', JStr path), (''storageId'', storageId), (''isRootBot'', JBool isRootBot)]))
          (\<lambda>response. thenDo (member response ''data'') (loadProjectData env)))
       (\<lambda>ex. Inr \<lparr>botFiles = JUndef, projectData = JUndef, error = ex\<rparr>)"

definition fetchProjectDataById :: "collaborators \<Rightarrow> string \<Rightarrow> fetchResult result" where
  "fetchProjectDataById env projectId =
     tryCatch
       (thenDo (httpClient_get env (''/projects/'' @ projectId))
          (\<lambda>response. thenDo (member response ''data'') (loadProjectData env)))
       (\<lambda>ex. Inr \<lparr>botFiles = JUndef, projectData = JUndef, error = ex\<rparr>)"

section \<open>Project failures\<close>

text \<open>
  The atoms \<^verbatim>\<open>handleProjectFailure\<close> writes. \<^verbatim>\<open>setError\<close> is defined in
  \<^verbatim>\<open>dispatchers/shared\<close>; a call of it is recorded with the error it is given.
  \<^verbatim>\<open>checkIfDotnetVersionMissing\<close> and \<^verbatim>\<open>checkIfFunctionsMissing\<close> come from
  \<^verbatim>\<open>utils/runtimeErrors\<close> and are parameters, applied to the message.
\<close>

record warnings =
  warnAboutDotNet :: bool
  warnAboutFunctions :: bool
  setErrorCalls :: "jv list"

text \<open>\<^verbatim>\<open>error.response?.data?.message ?? error.message ?? ''\<close>, for an error that is not nullish.\<close>

definition failureMessage :: "jv \<Rightarrow> jv" where
  "failureMessage err =
     coalesce (optMember (optMember (getProp err ''response'') ''data'') ''message'')
       (coalesce (getProp err ''message'') (JStr []))"

definition handleProjectFailure ::
  "(jv \<Rightarrow> bool) \<Rightarrow> (jv \<Rightarrow> bool) \<Rightarrow> jv \<Rightarrow> warnings \<Rightarrow> warnings result" where
  "handleProjectFailure checkIfDotnetVersionMissing checkIfFunctionsMissing err st =
     (if nullish err then Inl typeError
      else
        let isDotnetError = checkIfDotnetVersionMissing (failureMessage err);
            isFunctionsError = checkIfFunctionsMissing (failureMessage err)
        in if isDotnetError then Inr (st\<lparr>warnAboutDotNet := True\<rparr>)
           else if isFunctionsError then Inr (st\<lparr>warnAboutFunctions := True\<rparr>)
           else Inr (st\<lparr>warnAboutDotNet := False, warnAboutFunctions := False,
                       setErrorCalls := setErrorCalls st @ [err]\<rparr>))"

text \<open>A sample backend that serves one project, and the same backend with the network down.\<close>

definition sampleProject :: jv where
  "sampleProject = JObj [(''files'', JArr [] []), (''botName'', JStr ''echo''),
     (''settings'', JObj []), (''id'', JStr ''p1'')]"

definition sampleIndex :: jv where
  "sampleIndex = JObj [
     (''lgResources'', JArr [JObj [(''id'', JStr ''common''), (''content'', JStr ''hi'')]] []),
     (''luResources'', JArr [] []), (''qnaResources'', JArr [] []),
     (''botProjectSpaceFiles'', JArr [JObj [(''id'', JStr ''echo'')]] [])]"

definition networkError :: jv where
  "networkError = JObj [(''message'', JStr ''Network Error'')]"

definition sampleBackend :: collaborators where
  "sampleBackend = \<lparr>
     settingStorage_get = noStorage,
     sensitiveProperties = [[''MicrosoftAppPassword'']],
     rootBotManagedProperties = [],
     convertSkills = noSkills,
     httpClient_put = (\<lambda>url body. Inr (JObj [(''data'', sampleProject)])),
     httpClient_get = (\<lambda>url. Inr (JObj [(''data'', sampleProject)])),
     indexer_index = (\<lambda>files botName. Inr sampleIndex),
     lgWorker_addProject = (\<lambda>projectId. Inr JUndef),
     botIndexer_validate = (\<lambda>assets. Inr (JArr [] []))\<rparr>"

definition offlineBackend :: collaborators where
  "offlineBackend = sampleBackend\<lparr>
     httpClient_put := (\<lambda>url body. Inl networkError),
     httpClient_get := (\<lambda>url. Inl networkError)\<rparr>"

section \<open>The skill tree\<close>

text \<open>
  A skill entry of the bot-project file. \<^verbatim>\<open>skill.workspace\<close> and \<^verbatim>\<open>skill.manifest\<close>
  are optional strings, tested for truthiness: present and not empty.
\<close>

record botProjectSpaceSkill =
  workspace :: "string option"
  manifest :: "string option"
  remote :: bool

definition present :: "string option \<Rightarrow> bool" where
  "present s = (case s of None \<Rightarrow> False | Some x \<Rightarrow> x \<noteq> [])"

text \<open>
  The load a skill entry starts: \<^verbatim>\<open>openLocalSkill\<close> on the path joined from the root
  bot's location and the workspace, or \<^verbatim>\<open>openRemoteSkill\<close> on the manifest URL.
\<close>

datatype skillLoad = OpenLocalSkill string string | OpenRemoteSkill string

record skillPromise =
  nameIdentifier :: string
  isRemote :: bool
  load :: skillLoad

definition startSkill :: "string \<Rightarrow> string \<Rightarrow> botProjectSpaceSkill \<Rightarrow> skillPromise option" where
  "startSkill location name skill =
     (if \<not> remote skill \<and> present (workspace skill) then
        (case workspace skill of
           Some skillPath \<Rightarrow>
             Some \<lparr>nameIdentifier = name, isRemote = False, load = OpenLocalSkill location skillPath\<rparr>
         | None \<Rightarrow> None)
      else if present (manifest skill) then
        (case manifest skill of
           Some url \<Rightarrow> Some \<lparr>nameIdentifier = name, isRemote = True, load = OpenRemoteSkill url\<rparr>
         | None \<Rightarrow> None)
      else None)"

text \<open>The \<^verbatim>\<open>for (const nameIdentifier in skills)\<close> loop: the promises it creates, in order.\<close>

fun startSkills :: "string \<Rightarrow> (string \<times> botProjectSpaceSkill) list \<Rightarrow> skillPromise list" where
  "startSkills location [] = []"
| "startSkills location ((name, skill) # rest) =
     (case startSkill location name skill of
        Some p \<Rightarrow> p # startSkills location rest
      | None \<Rightarrow> startSkills location rest)"

text \<open>
  The atoms the skill tree writes. \<open>loadedWrites\<close> is not an atom: it counts the calls
  \<^verbatim>\<open>set(botProjectSpaceLoadedState, true)\<close>. The per-project atoms are maps from the
  project id; \<open>projectMetaData\<close> holds the pair \<open>(isRootBot, isRemote)\<close>.
\<close>

record projectSpace =
  botProjectIds :: "string list"
  botProjectSpaceLoaded :: bool
  loadedWrites :: nat
  projectMetaData :: "string \<Rightarrow> (bool \<times> bool) option"
  botDisplayName :: "string \<Rightarrow> string option"
  botNameIdentifier :: "string \<Rightarrow> string option"
  botError :: "string \<Rightarrow> jv option"

text \<open>
  \<^verbatim>\<open>set(botProjectIdsState, updater)\<close> runs the updater before it returns, as the test
  of \<^verbatim>\<open>isBotProjectLoaded\<close> right after it presumes.
\<close>

definition addProjectToBotProjectSpace :: "string \<Rightarrow> nat \<Rightarrow> projectSpace \<Rightarrow> projectSpace" where
  "addProjectToBotProjectSpace projectId skillCt st =
     (let ids = botProjectIds st @ [projectId];
          isBotProjectLoaded = (length ids = skillCt);
          st1 = st\<lparr>botProjectIds := ids\<rparr>
      in if isBotProjectLoaded
         then st1\<lparr>botProjectSpaceLoaded := True, loadedWrites := loadedWrites st1 + 1\<rparr>
         else st1)"

text \<open>What \<^verbatim>\<open>setErrorOnBotProject\<close> stores: the body of the response when it has a message,
  the payload itself otherwise.\<close>

definition errorPayload :: "jv \<Rightarrow> jv" where
  "errorPayload payload =
     (if truthy (optMember (optMember (optMember payload ''response'') ''data'') ''message'')
      then getProp (getProp payload ''response'') ''data''
      else payload)"

definition setErrorOnBotProject :: "string \<Rightarrow> string \<Rightarrow> jv \<Rightarrow> projectSpace \<Rightarrow> projectSpace" where
  "setErrorOnBotProject projectId botName payload st =
     st\<lparr>botError := (botError st)(projectId \<mapsto> errorPayload payload)\<rparr>"

text \<open>\<open>uuid\<close> is the id \<^verbatim>\<open>uuid()\<close> returns in this call.\<close>

definition handleSkillLoadingFailure ::
  "string \<Rightarrow> bool \<Rightarrow> jv \<Rightarrow> string \<Rightarrow> projectSpace \<Rightarrow> string \<times> projectSpace" where
  "handleSkillLoadingFailure uuid remoteSkill ex skillNameIdentifier st =
     (let projectId = uuid;
          st1 = st\<lparr>projectMetaData := (projectMetaData st)(projectId \<mapsto> (False, remoteSkill))\<rparr>;
          st2 = st1\<lparr>botDisplayName := (botDisplayName st1)(projectId \<mapsto> skillNameIdentifier)\<rparr>;
          st3 = st2\<lparr>botNameIdentifier := (botNameIdentifier st2)(projectId \<mapsto> skillNameIdentifier)\<rparr>
      in (projectId, setErrorOnBotProject projectId skillNameIdentifier ex st3))"

text \<open>
  How a skill promise settles. \<open>Fulfilled projectId thrown\<close>: the load returned
  \<open>projectId\<close>, and the steps of the \<^verbatim>\<open>then\<close> callback after
  \<^verbatim>\<open>addProjectToBotProjectSpace\<close> (\<^verbatim>\<open>fetchEndpointNameForSkill\<close> and the dispatcher
  calls, defined elsewhere) returned (\<open>None\<close>) or threw \<open>ex\<close> (\<open>Some ex\<close>).
  \<open>Rejected ex\<close>: the load rejected with \<open>ex\<close>. \<open>generatedId\<close> is what \<^verbatim>\<open>uuid()\<close>
  returns if the \<^verbatim>\<open>catch\<close> callback runs.
\<close>

datatype settlement = Fulfilled string "jv option" | Rejected jv

record skillSettled = skillPromise +
  outcome :: settlement
  generatedId :: string

definition catchCallback :: "nat \<Rightarrow> skillSettled \<Rightarrow> jv \<Rightarrow> projectSpace \<Rightarrow> projectSpace" where
  "catchCallback totalProjectsCount ev ex st =
     (let (projectId, st1) =
            handleSkillLoadingFailure (generatedId ev) (isRemote ev) ex (nameIdentifier ev) st
      in addProjectToBotProjectSpace projectId totalProjectsCount st1)"

text \<open>\<^verbatim>\<open>skillPromise.then(...).catch(...)\<close>: the \<^verbatim>\<open>catch\<close> callback also receives what the
  \<^verbatim>\<open>then\<close> callback throws.\<close>

definition skillSettles :: "nat \<Rightarrow> skillSettled \<Rightarrow> projectSpace \<Rightarrow> projectSpace" where
  "skillSettles totalProjectsCount ev st =
     (case outcome ev of
        Fulfilled projectId thrown \<Rightarrow>
          (let st1 = addProjectToBotProjectSpace projectId totalProjectsCount st
           in case thrown of
                None \<Rightarrow> st1
              | Some ex \<Rightarrow> catchCallback totalProjectsCount ev ex st1)
      | Rejected ex \<Rightarrow> catchCallback totalProjectsCount ev ex st)"

text \<open>
  The promises settle one after the other, in any order; \<open>events\<close> lists them in that
  order. Each callback runs to completion, and nothing else writes the collected project ids
  or the loaded flag in between.
\<close>

fun settleAll :: "nat \<Rightarrow> skillSettled list \<Rightarrow> projectSpace \<Rightarrow> projectSpace" where
  "settleAll totalProjectsCount [] st = st"
| "settleAll totalProjectsCount (ev # events) st =
     settleAll totalProjectsCount events (skillSettles totalProjectsCount ev st)"

text \<open>
  The part of \<^verbatim>\<open>openRootBotAndSkills\<close> from \<^verbatim>\<open>set(botProjectIdsState, [rootBotProjectId])\<close>
  to the end of the skill loop, which runs before any skill promise settles. \<open>botProjectFile\<close>
  is the skill mapping of the bot-project file after migration, \<open>None\<close> when the project has
  no such file, in which case the function throws. The result is the state it leaves and,
  unless it threw, \<^verbatim>\<open>totalProjectsCount\<close> and the promises started.
\<close>

definition openRootBotAndSkills ::
  "string \<Rightarrow> string \<Rightarrow> (string \<times> botProjectSpaceSkill) list option \<Rightarrow> projectSpace
     \<Rightarrow> projectSpace \<times> (nat \<times> skillPromise list) result" where
  "openRootBotAndSkills rootBotProjectId location botProjectFile st =
     (let st1 = st\<lparr>botProjectIds := [rootBotProjectId]\<rparr>
      in case botProjectFile of
           None \<Rightarrow> (st1, Inl (JObj [(''message'', JStr ''Bot project file does not exist.'')]))
         | Some skills \<Rightarrow>
             (let totalProjectsCount = length skills + 1
              in if totalProjectsCount > 1
                 then (st1, Inr (totalProjectsCount, startSkills location skills))
                 else (st1\<lparr>botProjectSpaceLoaded := True, loadedWrites := loadedWrites st1 + 1\<rparr>,
                       Inr (totalProjectsCount, []))))"

text \<open>
  A schedule settles promises that were started, each at most once. The callbacks return
  when no \<^verbatim>\<open>then\<close> callback throws after it has added its project.
\<close>

definition schedule :: "skillPromise list \<Rightarrow> skillSettled list \<Rightarrow> bool" where
  "schedule pending events =
     (distinct (map nameIdentifier events) \<and>
      (\<forall>ev\<in>set events. skillPromise.truncate ev \<in> set pending))"

fun callbackReturns :: "settlement \<Rightarrow> bool" where
  "callbackReturns (Fulfilled projectId thrown) = (thrown = None)"
| "callbackReturns (Rejected ex) = True"

text \<open>The project id a settled skill is collected under.\<close>

fun collectedId :: "skillSettled \<Rightarrow> string" where
  "collectedId ev = (case outcome ev of Fulfilled projectId thrown \<Rightarrow> projectId | Rejected ex \<Rightarrow> generatedId ev)"

text \<open>The state before a project is opened, and two sample skill entries.\<close>

definition emptySpace :: projectSpace where
  "emptySpace = \<lparr>botProjectIds = [], botProjectSpaceLoaded = False, loadedWrites = 0,
     projectMetaData = Map.empty, botDisplayName = Map.empty, botNameIdentifier = Map.empty,
     botError = Map.empty\<rparr>"

definition localSkill :: botProjectSpaceSkill where
  "localSkill = \<lparr>workspace = Some ''../todo'', manifest = None, remote = False\<rparr>"

definition brokenSkill :: botProjectSpaceSkill where
  "brokenSkill = \<lparr>workspace = None, manifest = None, remote = False\<rparr>"

definition todoPromise :: skillPromise where
  "todoPromise = \<lparr>nameIdentifier = ''todo'', isRemote = False,
     load = OpenLocalSkill ''/bots/root'' ''../todo''\<rparr>"

definition todoLoaded :: skillSettled where
  "todoLoaded = \<lparr>nameIdentifier = ''todo'', isRemote = False,
     load = OpenLocalSkill ''/bots/root'' ''../todo'',
     outcome = Fulfilled ''p2'' None, generatedId = ''u1''\<rparr>"

definition todoFailed :: skillSettled where
  "todoFailed = \<lparr>nameIdentifier = ''todo'', isRemote = False,
     load = OpenLocalSkill ''/bots/root'' ''../todo'',
     outcome = Rejected networkError, generatedId = ''u1''\<rparr>"

text \<open>
  The relation between the collected project ids and the writes of the loaded flag that every
  step of the skill tree keeps: starting from \<open>w\<close> writes and flag \<open>f\<close>, there has been one
  more write, and the flag is set, exactly when the ids number at least \<open>n\<close>.
\<close>

definition counted :: "nat \<Rightarrow> nat \<Rightarrow> bool \<Rightarrow> projectSpace \<Rightarrow> bool" where
  "counted n w f st =
     (loadedWrites st = w + (if n \<le> length (botProjectIds st) then 1 else 0) \<and>
      botProjectSpaceLoaded st = (f \<or> n \<le> length (botProjectIds st)))"

text \<open>
  A second skill, remote, and the \<open>todo\<close> skill loaded with a \<^verbatim>\<open>then\<close> callback that
  throws after it has added the project.
\<close>

definition remoteSkill :: botProjectSpaceSkill where
  "remoteSkill = \<lparr>workspace = None, manifest = Some ''https://news/manifest.json'', remote = True\<rparr>"

definition newsPromise :: skillPromise where
  "newsPromise = \<lparr>nameIdentifier = ''news'', isRemote = True,
     load = OpenRemoteSkill ''https://news/manifest.json''\<rparr>"

definition newsLoaded :: skillSettled where
  "newsLoaded = \<lparr>nameIdentifier = ''news'', isRemote = True,
     load = OpenRemoteSkill ''https://news/manifest.json'',
     outcome = Fulfilled ''p3'' None, generatedId = ''u2''\<rparr>"

definition todoThrows :: skillSettled where
  "todoThrows = \<lparr>nameIdentifier = ''todo'', isRemote = False,
     load = OpenLocalSkill ''/bots/root'' ''../todo'',
     outcome = Fulfilled ''p2'' (Some typeError), generatedId = ''u1''\<rparr>"

section \<open>Laws of get, set and cloneDeep\<close>

lemma getProp_assignValue_same: "isObject v \<Longrightarrow> getProp (assignValue v k x) k = x"
  by (cases v) (simp_all add: getProp_def update_conv')

lemma getProp_assignValue_other: "k' \<noteq> k \<Longrightarrow> getProp (assignValue v k x) k' = getProp v k'"
  by (cases v) (simp_all add: getProp_def update_conv')

lemma isObject_assignValue: "isObject (assignValue v k x) = isObject v"
  by (cases v) simp_all


lemma isObject_setPath: "isObject (setPath v p x) = isObject v"
  by (induction v p x rule: setPath.induct) (simp_all add: isObject_assignValue)

lemma walk_JUndef: "walk JUndef ks = JUndef"
  by (cases ks) simp_all










lemma isPlainObject_isObject: "isPlainObject v \<Longrightarrow> isObject v"
  by (cases v) simp_all

lemma isPlainObject_assignValue: "isPlainObject (assignValue v k x) = isPlainObject v"
  by (cases v) simp_all

lemma isPlainObject_setPath: "isPlainObject (setPath v p x) = isPlainObject v"
  by (induction v p x rule: setPath.induct) (simp_all add: isPlainObject_assignValue)


lemma setPath_top: "q \<noteq> [] \<Longrightarrow> \<exists>y. setPath v q x = assignValue v (hd q) y"
  by (induction v q x rule: setPath.induct) auto


lemma getProp_setPath_other:
  assumes "q = [] \<or> hd q \<noteq> k"
  shows "getProp (setPath v q x) k = getProp v k"
proof (cases "q = []")
  case True
  then show ?thesis by simp
next
  case False
  then obtain y where "setPath v q x = assignValue v (hd q) y" using setPath_top by blast
  then show ?thesis using assms False by (simp add: getProp_assignValue_other)
qed

lemma joinDots_dot: "length p > 1 \<Longrightarrow> CHR ''.'' \<in> set (joinDots p)"
  by (induction p rule: joinDots.induct) simp_all





lemma isObject_objectSet: "isObject (objectSet v p x) = isObject v"
  by (simp add: objectSet_def isObject_setPath)

lemma isPlainObject_objectSet: "isPlainObject (objectSet v p x) = isPlainObject v"
  by (auto simp: objectSet_def isPlainObject_setPath)


lemma hd_castPath:
  "p \<noteq> [] \<Longrightarrow> hd (castPath v p) = hd p \<or> (length p > 1 \<and> hd (castPath v p) = joinDots p)"
  by (auto simp: castPath_def)








lemma getProp_objectSet_other:
  assumes "independent [k] q" and "CHR ''.'' \<notin> set k"
  shows "getProp (objectSet v q x) k = getProp v k"
proof -
  have q: "q \<noteq> []" and hd: "hd q \<noteq> k"
    using assms(1) by (cases q; auto simp: independent_def)+
  have "hd (castPath v q) \<noteq> k"
    using hd_castPath [OF q, of v] hd joinDots_dot [of q] assms(2) by auto
  then show ?thesis by (simp add: objectSet_def getProp_setPath_other)
qed

lemma cloneDeep_json: "json v \<Longrightarrow> cloneDeep v = v"
proof (induction v)
  case (JArr es ps)
  then have "map cloneDeep es = es" by (simp add: map_idI)
  then show ?case using JArr.prems by (simp add: matchProps_def)
next
  case (JObj ps)
  have "map (\<lambda>(k, x). (k, cloneDeep x)) ps = ps"
  proof (rule map_idI)
    fix e assume e: "e \<in> set ps"
    obtain k x where kx: "e = (k, x)" by (cases e)
    then have "x \<in> Basic_BNFs.snds e" by simp
    moreover have "json x" using JObj.prems e kx by auto
    ultimately have "cloneDeep x = x" using JObj.IH e by blast
    then show "(case e of (k, x) \<Rightarrow> (k, cloneDeep x)) = e" using kx by simp
  qed
  then show ?case by simp
qed simp_all

lemma cloneDeep_kinds:
  "isObject (cloneDeep v) = isObject v"
  "isPlainObject (cloneDeep v) = isPlainObject v"
  "isArray (cloneDeep v) = isArray v"
  "nullish (cloneDeep v) = nullish v"
  by (cases v; simp)+

lemma map_of_cloned:
  "map_of (map (\<lambda>(k, x). (k, cloneDeep x)) ps) k = map_option cloneDeep (map_of ps k)"
  by (induction ps) auto

lemma getProp_cloneDeep:
  "\<not> isArray v \<Longrightarrow> getProp (cloneDeep v) k = cloneDeep (getProp v k)"
  by (cases v) (simp_all add: getProp_def map_of_cloned split: option.splits)










lemma isPlainObject_not_array: "isPlainObject v \<Longrightarrow> \<not> isArray v"
  by (cases v) simp_all












lemma isObject_spread: "isObject (spread v)"
  by (cases v) simp_all

lemma isPlainObject_spread: "isPlainObject (spread v)"
  by (cases v) simp_all

lemma isObject_mergeLoop: "isObject (mergeLoop M ps l m) = isObject m"
  by (induction ps arbitrary: m) (simp_all add: Let_def isObject_objectSet)

lemma isPlainObject_mergeLoop: "isPlainObject (mergeLoop M ps l m) = isPlainObject m"
  by (induction ps arbitrary: m) (simp_all add: Let_def isPlainObject_objectSet)







lemma isPlainObject_mergeLocalStorage: "isPlainObject (mergeLocalStorage store S M pid settings)"
  by (simp add: mergeLocalStorage_def Let_def isPlainObject_mergeLoop isPlainObject_spread)

lemma isObject_mergeLuisName: "isObject (mergeLuisName m b) = isObject m"
  by (simp add: mergeLuisName_def Let_def isObject_objectSet cloneDeep_kinds)









lemma getProp_mergeLoop_other:
  assumes "\<forall>q\<in>set ps. q \<notin> set M \<longrightarrow> independent [k] q" and "CHR ''.'' \<notin> set k"
  shows "getProp (mergeLoop M ps l m) k = getProp m k"
  using assms(1)
proof (induction ps arbitrary: m)
  case Nil
  then show ?case by simp
next
  case (Cons q ps)
  show ?case
  proof (cases "q \<in> set M")
    case True
    then show ?thesis using Cons by simp
  next
    case False
    then have "independent [k] q" using Cons.prems by simp
    then have "getProp (objectSet m q x) k = getProp m k" for x
      using assms(2) by (rule getProp_objectSet_other)
    then show ?thesis using False Cons by (simp add: Let_def)
  qed
qed

lemma getProp_result_skill:
  assumes "\<forall>q\<in>set S. q \<notin> set M \<longrightarrow> independent [''skill''] q"
  shows "getProp (mergeLuisName (mergeLocalStorage store S M pid settings) botName) ''skill'' =
    cloneDeep (getProp (spread settings) ''skill'')"
proof -
  let ?m = "mergeLocalStorage store S M pid settings"
  have nd: "CHR ''.'' \<notin> set ''skill''" by simp
  have "getProp (mergeLuisName ?m botName) ''skill'' = getProp (cloneDeep ?m) ''skill''"
    unfolding mergeLuisName_def Let_def
    by (rule getProp_objectSet_other) (simp_all add: independent_def)
  also have "\<dots> = cloneDeep (getProp ?m ''skill'')"
    by (rule getProp_cloneDeep)
      (simp add: isPlainObject_not_array isPlainObject_mergeLocalStorage)
  also have "getProp ?m ''skill'' = getProp (spread settings) ''skill''"
    using getProp_mergeLoop_other [OF assms nd]
    by (simp add: mergeLocalStorage_def Let_def)
  finally show ?thesis .
qed

lemma getProp_JObj: "getProp (JObj ps) k = (case map_of ps k of Some x \<Rightarrow> x | None \<Rightarrow> JUndef)"
  by (simp add: getProp_def)


section \<open>Properties of the settings merger\<close>




text \<open>
  Claim C5 as stated fails: \<open>getMergedSettings\<close> reads the local storage, so equal
  arguments give different results under different storage contents.
\<close>

theorem getMergedSettings_hidden_state:
  "getMergedSettings noStorage [[''MicrosoftAppPassword'']] [] noSkills
     (JStr ''p1'') (JObj []) (JStr ''echo'') \<noteq>
   getMergedSettings passwordStorage [[''MicrosoftAppPassword'']] [] noSkills
     (JStr ''p1'') (JObj []) (JStr ''echo'')"
  by (simp add: getMergedSettings_def mergeLocalStorage_def mergeLuisName_def objectGetDefault_def
      objectGet_def objectSet_def castPath_def hasKey_def getProp_def Let_def noStorage_def
      passwordStorage_def noSkills_def)

text \<open>
  Claim C5, amended. The result of \<open>getMergedSettings\<close> is determined by its arguments
  together with the local-storage entry of the project: two storage states that agree on the
  project id give equal results.
\<close>

theorem getMergedSettings_storage_only:
  "store pid = store' pid \<Longrightarrow>
   getMergedSettings store S M conv pid settings botName =
   getMergedSettings store' S M conv pid settings botName"
  by (simp add: getMergedSettings_def mergeLocalStorage_def)

theorem getMergedSettings_storage_only_witness:
  "getMergedSettings (\<lambda>i. if i = JStr ''p1'' then JObj [] else JNull) [[''MicrosoftAppPassword'']] []
      (\<lambda>_. JNull) (JStr ''p1'') (JObj []) (JStr ''echo'') =
   getMergedSettings (\<lambda>i. if i = JStr ''p1'' then JObj [] else JStr ''other'') [[''MicrosoftAppPassword'']] []
      (\<lambda>_. JNull) (JStr ''p1'') (JObj []) (JStr ''echo'')"
  using getMergedSettings_storage_only [where store = "\<lambda>i. if i = JStr ''p1'' then JObj [] else JNull"
      and pid = "JStr ''p1''" and store' = "\<lambda>i. if i = JStr ''p1'' then JObj [] else JStr ''other''"]
  by simp



text \<open>
  Claim C8. When the \<open>skill\<close> field of the settings is an array, \<open>getMergedSettings\<close>
  returns the merged settings with \<open>skill\<close> replaced by \<open>convertSkillsToDictionary\<close> applied
  to the shallow copies of the elements of the array, which \<open>mergeLuisName\<close> has
  deep-copied; otherwise it returns the settings as the preceding merge steps left them,
  with the deep copy of the \<open>skill\<close> field of the input. For JSON data the deep copy equals
  the value copied. No merged sensitive path may overlap \<open>skill\<close>.
\<close>

theorem getMergedSettings_skill:
  assumes "\<forall>q\<in>set S. q \<notin> set M \<longrightarrow> independent [''skill''] q"
  shows "getMergedSettings store S M conv pid (JObj settings) botName =
    (let merged = mergeLuisName (mergeLocalStorage store S M pid (JObj settings)) botName;
         skill = cloneDeep (getProp (JObj settings) ''skill'')
     in if isArray skill then assignValue merged ''skill'' (conv (map spread (elements skill)))
        else merged)
    \<and> (isArray (getProp (JObj settings) ''skill'') \<longrightarrow>
        getProp (getMergedSettings store S M conv pid (JObj settings) botName) ''skill'' =
          conv (map spread (elements (cloneDeep (getProp (JObj settings) ''skill'')))))
    \<and> (\<not> isArray (getProp (JObj settings) ''skill'') \<longrightarrow>
        getProp (getMergedSettings store S M conv pid (JObj settings) botName) ''skill'' =
          cloneDeep (getProp (JObj settings) ''skill''))
    \<and> (json (getProp (JObj settings) ''skill'') \<longrightarrow>
        getMergedSettings store S M conv pid (JObj settings) botName =
          (let merged = mergeLuisName (mergeLocalStorage store S M pid (JObj settings)) botName;
               skill = getProp (JObj settings) ''skill''
           in if isArray skill then assignValue merged ''skill'' (conv (map spread (elements skill)))
              else merged)
        \<and> (isArray (getProp (JObj settings) ''skill'') \<longrightarrow>
            getProp (getMergedSettings store S M conv pid (JObj settings) botName) ''skill'' =
              conv (map spread (elements (getProp (JObj settings) ''skill''))))
        \<and> (\<not> isArray (getProp (JObj settings) ''skill'') \<longrightarrow>
            getProp (getMergedSettings store S M conv pid (JObj settings) botName) ''skill'' =
              getProp (JObj settings) ''skill''))"
proof -
  let ?m = "mergeLuisName (mergeLocalStorage store S M pid (JObj settings)) botName"
  let ?sk = "getProp (JObj settings) ''skill''"
  let ?r = "getMergedSettings store S M conv pid (JObj settings) botName"
  have sk: "getProp ?m ''skill'' = cloneDeep ?sk"
    using assms by (simp add: getProp_result_skill)
  have obj: "isObject ?m"
    by (simp add: isObject_mergeLuisName isPlainObject_mergeLocalStorage isPlainObject_isObject)
  have eq: "?r = (if isArray (cloneDeep ?sk)
     then assignValue ?m ''skill'' (conv (map spread (elements (cloneDeep ?sk)))) else ?m)"
    unfolding getMergedSettings_def Let_def sk ..
  have c1: "?r = (let merged = ?m; skill = cloneDeep ?sk
     in if isArray skill then assignValue merged ''skill'' (conv (map spread (elements skill)))
        else merged)"
    using eq by (simp add: Let_def)
  have c2: "isArray ?sk \<longrightarrow>
      getProp ?r ''skill'' = conv (map spread (elements (cloneDeep ?sk)))"
    using eq getProp_assignValue_same [OF obj] by (simp add: cloneDeep_kinds)
  have c3: "\<not> isArray ?sk \<longrightarrow> getProp ?r ''skill'' = cloneDeep ?sk"
    using eq sk by (simp add: cloneDeep_kinds)
  have c4: "json ?sk \<longrightarrow>
        ?r = (let merged = ?m; skill = ?sk
           in if isArray skill then assignValue merged ''skill'' (conv (map spread (elements skill)))
              else merged)
        \<and> (isArray ?sk \<longrightarrow> getProp ?r ''skill'' = conv (map spread (elements ?sk)))
        \<and> (\<not> isArray ?sk \<longrightarrow> getProp ?r ''skill'' = ?sk)"
  proof
    assume "json ?sk"
    then have "cloneDeep ?sk = ?sk" by (rule cloneDeep_json)
    then show "?r = (let merged = ?m; skill = ?sk
           in if isArray skill then assignValue merged ''skill'' (conv (map spread (elements skill)))
              else merged)
        \<and> (isArray ?sk \<longrightarrow> getProp ?r ''skill'' = conv (map spread (elements ?sk)))
        \<and> (\<not> isArray ?sk \<longrightarrow> getProp ?r ''skill'' = ?sk)"
      using c1 c2 c3 by simp
  qed
  show ?thesis using c1 c2 c3 c4 by blast
qed

theorem getMergedSettings_skill_witness:
  "getProp (getMergedSettings (\<lambda>_. JUndef) [[''MicrosoftAppPassword'']] []
      (\<lambda>xs. JObj (map (\<lambda>x. (''s'', x)) xs)) (JStr ''p1'')
      (JObj [(''skill'', JArr [JObj [(''name'', JStr ''a'')]] [])]) (JStr ''echo'')) ''skill''
    = JObj [(''s'', JObj [(''name'', JStr ''a'')])] \<and>
   getProp (getMergedSettings (\<lambda>_. JUndef) [[''MicrosoftAppPassword'']] []
      (\<lambda>xs. JObj (map (\<lambda>x. (''s'', x)) xs)) (JStr ''p1'')
      (JObj [(''skill'', JObj [(''a'', JNull)])]) (JStr ''echo'')) ''skill''
    = JObj [(''a'', JNull)]"
proof -
  have h: "\<forall>q\<in>set [[''MicrosoftAppPassword'']]. q \<notin> set [] \<longrightarrow> independent [''skill''] q"
    by (simp add: independent_def)
  show ?thesis
    using getMergedSettings_skill [where S = "[[''MicrosoftAppPassword'']]" and M = "[]"
        and store = "\<lambda>_. JUndef" and conv = "\<lambda>xs. JObj (map (\<lambda>x. (''s'', x)) xs)"
        and pid = "JStr ''p1''" and botName = "JStr ''echo''"
        and settings = "[(''skill'', JArr [JObj [(''name'', JStr ''a'')]] [])]", OF h,
        THEN conjunct2, THEN conjunct1]
      getMergedSettings_skill [where S = "[[''MicrosoftAppPassword'']]" and M = "[]"
        and store = "\<lambda>_. JUndef" and conv = "\<lambda>xs. JObj (map (\<lambda>x. (''s'', x)) xs)"
        and pid = "JStr ''p1''" and botName = "JStr ''echo''"
        and settings = "[(''skill'', JObj [(''a'', JNull)])]", OF h,
        THEN conjunct2, THEN conjunct2, THEN conjunct1]
    by (simp add: getProp_JObj)
qed



section \<open>Properties of the project loader\<close>

lemma loadProjectData_success:
  assumes "loadProjectData env d = Inr r"
  shows "error r = JUndef \<and> projectData r = d \<and> isObject (botFiles r)"
  using assms
  by (auto simp: loadProjectData_def thenDo_def Let_def isObject_assignValue isObject_spread
      split: if_splits sum.splits)

lemma sample_load: "\<exists>r. loadProjectData sampleBackend sampleProject = Inr r"
  by (simp add: loadProjectData_def sampleBackend_def sampleProject_def sampleIndex_def thenDo_def
      arrayMap_def getProp_def Let_def)

text \<open>
  Claim C4. \<open>fetchProjectDataByPath\<close> and \<open>fetchProjectDataById\<close> never throw: whatever
  the backend, the indexer, the validator and the worker do, they return a record
  \<open>{botFiles, projectData, error}\<close>. When the request or the processing of the project data
  fails, \<open>botFiles\<close> and \<open>projectData\<close> are \<^verbatim>\<open>undefined\<close> and \<open>error\<close> is the exception;
  when both succeed, the record is the one \<open>loadProjectData\<close> built, with \<open>error\<close>
  \<^verbatim>\<open>undefined\<close> and \<open>projectData\<close> the data of the response.
\<close>

theorem fetchProjectData_result_or_error:
  "(\<exists>r. fetchProjectDataByPath env path storageId isRootBot = Inr r \<and>
        (error r = JUndef \<and> isObject (botFiles r)
         \<or> botFiles r = JUndef \<and> projectData r = JUndef)) \<and>
   (\<exists>r. fetchProjectDataById env projectId = Inr r \<and>
        (error r = JUndef \<and> isObject (botFiles r)
         \<or> botFiles r = JUndef \<and> projectData r = JUndef)) \<and>
   (\<forall>ex. thenDo (httpClient_put env ''/projects/open''
            (JObj [(''path'', JStr path), (''storageId'', storageId), (''isRootBot'', JBool isRootBot)]))
          (\<lambda>response. thenDo (member response ''data'') (loadProjectData env)) = Inl ex \<longrightarrow>
      fetchProjectDataByPath env path storageId isRootBot =
        Inr \<lparr>botFiles = JUndef, projectData = JUndef, error = ex\<rparr>) \<and>
   (\<forall>ex. thenDo (httpClient_get env (''/projects/'' @ projectId))
          (\<lambda>response. thenDo (member response ''data'') (loadProjectData env)) = Inl ex \<longrightarrow>
      fetchProjectDataById env projectId =
        Inr \<lparr>botFiles = JUndef, projectData = JUndef, error = ex\<rparr>) \<and>
   (\<forall>response r. httpClient_put env ''/projects/open''
            (JObj [(''path'', JStr path), (''storageId'', storageId), (''isRootBot'', JBool isRootBot)])
          = Inr response \<and> \<not> nullish response \<and>
        loadProjectData env (getProp response ''data'') = Inr r \<longrightarrow>
      fetchProjectDataByPath env path storageId isRootBot = Inr r \<and> error r = JUndef \<and>
      projectData r = getProp response ''data'') \<and>
   (\<forall>response r. httpClient_get env (''/projects/'' @ projectId) = Inr response \<and>
        \<not> nullish response \<and> loadProjectData env (getProp response ''data'') = Inr r \<longrightarrow>
      fetchProjectDataById env projectId = Inr r \<and> error r = JUndef \<and>
      projectData r = getProp response ''data'')"
proof -
  let ?put = "httpClient_put env ''/projects/open''
     (JObj [(''path'', JStr path), (''storageId'', storageId), (''isRootBot'', JBool isRootBot)])"
  let ?get = "httpClient_get env (''/projects/'' @ projectId)"
  let ?k = "\<lambda>response. thenDo (member response ''data'') (loadProjectData env)"
  have shape: "\<exists>r. tryCatch (thenDo c ?k)
        (\<lambda>ex. Inr \<lparr>botFiles = JUndef, projectData = JUndef, error = ex\<rparr>) = Inr r \<and>
        (error r = JUndef \<and> isObject (botFiles r) \<or> botFiles r = JUndef \<and> projectData r = JUndef)" for c
  proof (cases "thenDo c ?k")
    case (Inl ex)
    then show ?thesis by (simp add: tryCatch_def)
  next
    case (Inr r)
    then obtain response d where "loadProjectData env d = Inr r"
      by (auto simp: thenDo_def member_def split: sum.splits if_splits)
    then have "error r = JUndef \<and> isObject (botFiles r)"
      using loadProjectData_success by blast
    then show ?thesis using Inr by (simp add: tryCatch_def)
  qed
  have ok: "tryCatch (thenDo c ?k) h = Inr r \<and> error r = JUndef \<and> projectData r = getProp response ''data''"
    if "c = Inr response" "\<not> nullish response" "loadProjectData env (getProp response ''data'') = Inr r"
    for c response r h
    using that loadProjectData_success [OF that(3)]
    by (simp add: tryCatch_def thenDo_def member_def)
  show ?thesis
    unfolding fetchProjectDataByPath_def fetchProjectDataById_def
    using shape [of ?put] shape [of ?get] ok [of ?put] ok [of ?get]
    by (simp add: tryCatch_def)
qed

theorem fetchProjectData_result_or_error_witness:
  "fetchProjectDataByPath offlineBackend ''/bots/echo'' (JStr ''default'') True =
     Inr \<lparr>botFiles = JUndef, projectData = JUndef, error = networkError\<rparr> \<and>
   (\<exists>r. fetchProjectDataById sampleBackend ''p1'' = Inr r \<and> error r = JUndef \<and>
        projectData r = sampleProject)"
proof -
  obtain r where r: "loadProjectData sampleBackend sampleProject = Inr r"
    using sample_load by blast
  have a: "fetchProjectDataByPath offlineBackend ''/bots/echo'' (JStr ''default'') True =
     Inr \<lparr>botFiles = JUndef, projectData = JUndef, error = networkError\<rparr>"
    using fetchProjectData_result_or_error [where env = offlineBackend and path = "''/bots/echo''"
        and storageId = "JStr ''default''" and isRootBot = True]
    by (simp add: offlineBackend_def thenDo_def)
  have b: "fetchProjectDataById sampleBackend ''p1'' = Inr r \<and> error r = JUndef \<and>
        projectData r = sampleProject"
    using r fetchProjectData_result_or_error [where env = sampleBackend and projectId = "''p1''"]
    by (simp add: sampleBackend_def getProp_def)
  show ?thesis using a b by blast
qed

section \<open>Properties of the failure handler\<close>

lemma optional_chain_path:
  "\<not> nullish err \<Longrightarrow>
   optMember (optMember (getProp err a) b) c = walk err [a, b, c]"
  by (simp add: optMember_def walk_JUndef)

lemma failureMessage_paths:
  assumes "\<not> nullish err"
  shows "failureMessage err =
    (if \<not> nullish (walk err [''response'', ''data'', ''message''])
     then walk err [''response'', ''data'', ''message'']
     else if \<not> nullish (walk err [''message'']) then walk err [''message'']
     else JStr [])"
  using assms optional_chain_path [OF assms]
  by (simp add: failureMessage_def coalesce_def)

text \<open>
  Claim C6. For an error that is neither \<^verbatim>\<open>null\<close> nor \<^verbatim>\<open>undefined\<close>, the message
  \<open>handleProjectFailure\<close> examines is \<open>response.data.message\<close>, else \<open>message\<close>, else the
  empty string (\<open>walk\<close> follows the keys as the optional chain does). If the message
  matches the missing-dotnet check, the dotnet warning flag is set; otherwise, if it matches
  the missing-functions check, the functions warning flag is set; otherwise both flags are
  cleared and the error is handed to \<^verbatim>\<open>setError\<close>.
\<close>

theorem handleProjectFailure_flags:
  assumes "\<not> nullish err"
  shows "failureMessage err =
      (if \<not> nullish (walk err [''response'', ''data'', ''message''])
       then walk err [''response'', ''data'', ''message'']
       else if \<not> nullish (walk err [''message'']) then walk err [''message'']
       else JStr []) \<and>
    (\<exists>st'. handleProjectFailure isDotnet isFunctions err st = Inr st' \<and>
      (isDotnet (failureMessage err) \<longrightarrow>
         warnAboutDotNet st' \<and> warnAboutFunctions st' = warnAboutFunctions st \<and>
         setErrorCalls st' = setErrorCalls st) \<and>
      (\<not> isDotnet (failureMessage err) \<and> isFunctions (failureMessage err) \<longrightarrow>
         warnAboutFunctions st' \<and> warnAboutDotNet st' = warnAboutDotNet st \<and>
         setErrorCalls st' = setErrorCalls st) \<and>
      (\<not> isDotnet (failureMessage err) \<and> \<not> isFunctions (failureMessage err) \<longrightarrow>
         \<not> warnAboutDotNet st' \<and> \<not> warnAboutFunctions st' \<and>
         setErrorCalls st' = setErrorCalls st @ [err]))"
  using assms failureMessage_paths [OF assms]
  by (simp add: handleProjectFailure_def Let_def)

theorem handleProjectFailure_flags_witness:
  "\<exists>st'. handleProjectFailure (\<lambda>m. m = JStr ''dotnet missing'') (\<lambda>m. False)
       (JObj [(''message'', JStr ''dotnet missing'')])
       \<lparr>warnAboutDotNet = False, warnAboutFunctions = False, setErrorCalls = []\<rparr> = Inr st' \<and>
     warnAboutDotNet st' \<and> \<not> warnAboutFunctions st' \<and> setErrorCalls st' = []"
proof -
  have h: "\<not> nullish (JObj [(''message'', JStr ''dotnet missing'')])" by simp
  show ?thesis
    using handleProjectFailure_flags [OF h, where isDotnet = "\<lambda>m. m = JStr ''dotnet missing''"
        and isFunctions = "\<lambda>m. False"
        and st = "\<lparr>warnAboutDotNet = False, warnAboutFunctions = False, setErrorCalls = []\<rparr>"]
    by (auto simp: getProp_def)
qed

section \<open>Properties of the skill tree\<close>

lemma ids_add: "botProjectIds (addProjectToBotProjectSpace p n st) = botProjectIds st @ [p]"
  by (simp add: addProjectToBotProjectSpace_def Let_def)

lemma writes_add:
  "loadedWrites (addProjectToBotProjectSpace p n st) =
     loadedWrites st + (if Suc (length (botProjectIds st)) = n then 1 else 0)"
  by (simp add: addProjectToBotProjectSpace_def Let_def)

lemma loaded_add:
  "botProjectSpaceLoaded (addProjectToBotProjectSpace p n st) =
     (botProjectSpaceLoaded st \<or> Suc (length (botProjectIds st)) = n)"
  by (simp add: addProjectToBotProjectSpace_def Let_def)

lemma maps_add:
  "projectMetaData (addProjectToBotProjectSpace p n st) = projectMetaData st"
  "botDisplayName (addProjectToBotProjectSpace p n st) = botDisplayName st"
  "botNameIdentifier (addProjectToBotProjectSpace p n st) = botNameIdentifier st"
  "botError (addProjectToBotProjectSpace p n st) = botError st"
  by (simp_all add: addProjectToBotProjectSpace_def Let_def)

lemma failure_fields:
  "fst (handleSkillLoadingFailure u r ex name st) = u"
  "botProjectIds (snd (handleSkillLoadingFailure u r ex name st)) = botProjectIds st"
  "loadedWrites (snd (handleSkillLoadingFailure u r ex name st)) = loadedWrites st"
  "botProjectSpaceLoaded (snd (handleSkillLoadingFailure u r ex name st)) = botProjectSpaceLoaded st"
  "projectMetaData (snd (handleSkillLoadingFailure u r ex name st)) u = Some (False, r)"
  "botDisplayName (snd (handleSkillLoadingFailure u r ex name st)) u = Some name"
  "botNameIdentifier (snd (handleSkillLoadingFailure u r ex name st)) u = Some name"
  "botError (snd (handleSkillLoadingFailure u r ex name st)) u = Some (errorPayload ex)"
  by (simp_all add: handleSkillLoadingFailure_def setErrorOnBotProject_def Let_def)

lemma catchCallback_eq:
  "catchCallback n ev ex st =
     addProjectToBotProjectSpace (generatedId ev) n
       (snd (handleSkillLoadingFailure (generatedId ev) (isRemote ev) ex (nameIdentifier ev) st))"
  by (simp add: catchCallback_def Let_def split_beta failure_fields)

lemma counted_add: "counted n w f st \<Longrightarrow> counted n w f (addProjectToBotProjectSpace p n st)"
  by (auto simp: counted_def ids_add writes_add loaded_add)

lemma counted_failure:
  "counted n w f st \<Longrightarrow> counted n w f (snd (handleSkillLoadingFailure u r ex name st))"
  by (simp add: counted_def failure_fields)

lemma counted_settles: "counted n w f st \<Longrightarrow> counted n w f (skillSettles n ev st)"
  by (auto simp: skillSettles_def catchCallback_eq Let_def counted_add counted_failure
      split: settlement.splits option.splits)

lemma counted_settleAll: "counted n w f st \<Longrightarrow> counted n w f (settleAll n events st)"
  by (induction events arbitrary: st) (simp_all add: counted_settles)

lemma ids_settles:
  "botProjectIds (skillSettles n ev st) =
     botProjectIds st @
       (case outcome ev of
          Fulfilled p None \<Rightarrow> [p]
        | Fulfilled p (Some ex) \<Rightarrow> [p, generatedId ev]
        | Rejected ex \<Rightarrow> [generatedId ev])"
  by (simp add: skillSettles_def catchCallback_eq Let_def ids_add failure_fields
      split: settlement.splits option.splits)

lemma ids_settles_returns:
  "callbackReturns (outcome ev) \<Longrightarrow>
   botProjectIds (skillSettles n ev st) = botProjectIds st @ [collectedId ev]"
  by (cases "outcome ev") (auto simp: ids_settles)

lemma ids_settles_grow:
  "\<exists>more. botProjectIds (skillSettles n ev st) = botProjectIds st @ collectedId ev # more"
  by (simp add: ids_settles split: settlement.splits option.splits)

lemma ids_settleAll_prefix:
  "\<exists>more. botProjectIds (settleAll n events st) = botProjectIds st @ more"
proof (induction events arbitrary: st)
  case Nil
  then show ?case by simp
next
  case (Cons ev events)
  obtain m1 where "botProjectIds (skillSettles n ev st) = botProjectIds st @ collectedId ev # m1"
    using ids_settles_grow by blast
  moreover obtain m2 where "botProjectIds (settleAll n events (skillSettles n ev st)) =
      botProjectIds (skillSettles n ev st) @ m2"
    using Cons.IH by blast
  ultimately show ?case by simp
qed

lemma collected_settleAll:
  "e \<in> set events \<Longrightarrow> collectedId e \<in> set (botProjectIds (settleAll n events st))"
proof (induction events arbitrary: st)
  case Nil
  then show ?case by simp
next
  case (Cons ev events)
  show ?case
  proof (cases "e = ev")
    case True
    obtain m1 where a: "botProjectIds (skillSettles n ev st) = botProjectIds st @ collectedId ev # m1"
      using ids_settles_grow by blast
    obtain m2 where "botProjectIds (settleAll n events (skillSettles n ev st)) =
        botProjectIds (skillSettles n ev st) @ m2"
      using ids_settleAll_prefix by blast
    then show ?thesis using a True by simp
  next
    case False
    then show ?thesis using Cons by simp
  qed
qed

lemma length_settleAll_ge:
  "length (botProjectIds st) + length events \<le> length (botProjectIds (settleAll n events st))"
proof (induction events arbitrary: st)
  case Nil
  then show ?case by simp
next
  case (Cons ev events)
  obtain m1 where "botProjectIds (skillSettles n ev st) = botProjectIds st @ collectedId ev # m1"
    using ids_settles_grow by blast
  then have "Suc (length (botProjectIds st)) \<le> length (botProjectIds (skillSettles n ev st))"
    by simp
  then show ?case using Cons.IH [of "skillSettles n ev st"] by simp
qed

lemma length_settleAll_returns:
  "\<forall>ev\<in>set events. callbackReturns (outcome ev) \<Longrightarrow>
   length (botProjectIds (settleAll n events st)) = length (botProjectIds st) + length events"
  by (induction events arbitrary: st) (simp_all add: ids_settles_returns)

lemma startSkill_name:
  "startSkill location name skill = Some p \<Longrightarrow> nameIdentifier p = name"
  by (auto simp: startSkill_def split: if_splits option.splits)

lemma startSkills_origin:
  "p \<in> set (startSkills location skills) \<Longrightarrow>
   \<exists>skill. (nameIdentifier p, skill) \<in> set skills \<and>
     startSkill location (nameIdentifier p) skill = Some p"
proof (induction skills)
  case Nil
  then show ?case by simp
next
  case (Cons e skills)
  obtain name skill where e: "e = (name, skill)" by (cases e)
  show ?case
  proof (cases "startSkill location name skill")
    case None
    then show ?thesis using Cons e by auto
  next
    case (Some q)
    show ?thesis
    proof (cases "p = q")
      case True
      then show ?thesis using Some e startSkill_name [OF Some] by auto
    next
      case False
      then show ?thesis using Cons e Some by auto
    qed
  qed
qed

lemma startSkills_length: "length (startSkills location skills) \<le> length skills"
  by (induction skills) (auto split: option.splits)

lemma startSkills_length_less:
  "(name, skill) \<in> set skills \<Longrightarrow> startSkill location name skill = None \<Longrightarrow>
   length (startSkills location skills) < length skills"
proof (induction skills)
  case Nil
  then show ?case by simp
next
  case (Cons e skills)
  show ?case
  proof (cases "e = (name, skill)")
    case True
    then show ?thesis using Cons.prems(2) startSkills_length [of location skills] by simp
  next
    case False
    then have "length (startSkills location skills) < length skills" using Cons by simp
    then show ?thesis by (cases e) (auto split: option.splits)
  qed
qed

lemma startSkills_member:
  "(name, skill) \<in> set skills \<Longrightarrow> startSkill location name skill = Some p \<Longrightarrow>
   p \<in> set (startSkills location skills)"
  by (induction skills) (auto split: option.splits)

lemma schedule_length:
  assumes "schedule pending events"
  shows "length events \<le> length pending"
proof -
  have sub: "nameIdentifier ` set events \<subseteq> nameIdentifier ` set pending"
  proof
    fix x assume "x \<in> nameIdentifier ` set events"
    then obtain ev where ev: "ev \<in> set events" "x = nameIdentifier ev" by auto
    then have "skillPromise.truncate ev \<in> set pending" using assms by (simp add: schedule_def)
    moreover have "nameIdentifier (skillPromise.truncate ev) = nameIdentifier ev"
      by (simp add: skillPromise.truncate_def)
    ultimately show "x \<in> nameIdentifier ` set pending" using ev by force
  qed
  have "card (set (map nameIdentifier events)) = length (map nameIdentifier events)"
    using assms by (intro distinct_card) (simp add: schedule_def)
  then have "length events = card (nameIdentifier ` set events)"
    by simp
  also have "\<dots> \<le> card (nameIdentifier ` set pending)"
    using sub by (simp add: card_mono)
  also have "\<dots> \<le> length pending"
    by (metis card_image_le card_length le_trans List.finite_set)
  finally show ?thesis .
qed


lemma open_some:
  "openRootBotAndSkills rootId location (Some skills) st = (st1, Inr (totalCount, pending)) \<Longrightarrow>
   totalCount = length skills + 1 \<and> pending = (if skills = [] then [] else startSkills location skills) \<and>
   st1 = (if skills = []
          then st\<lparr>botProjectIds := [rootId], botProjectSpaceLoaded := True,
                  loadedWrites := loadedWrites st + 1\<rparr>
          else st\<lparr>botProjectIds := [rootId]\<rparr>)"
  by (auto simp: openRootBotAndSkills_def Let_def split: if_splits)

lemma open_counted:
  assumes "openRootBotAndSkills rootId location (Some skills) st = (st1, Inr (totalCount, pending))"
    and "skills \<noteq> []"
  shows "counted totalCount (loadedWrites st) (botProjectSpaceLoaded st) st1"
  using open_some [OF assms(1)] assms(2)
  by (cases skills) (simp_all add: counted_def)

lemma startSkill_openable:
  assumes "\<not> remote skill \<and> present (workspace skill) \<or> present (manifest skill)"
  shows "\<exists>p. startSkill location name skill = Some p \<and> nameIdentifier p = name"
  using assms by (auto simp: startSkill_def present_def split: option.splits)

lemma failure_frame:
  assumes "projectId \<noteq> u"
  shows "projectMetaData (snd (handleSkillLoadingFailure u r ex name st)) projectId = projectMetaData st projectId"
    "botDisplayName (snd (handleSkillLoadingFailure u r ex name st)) projectId = botDisplayName st projectId"
    "botNameIdentifier (snd (handleSkillLoadingFailure u r ex name st)) projectId = botNameIdentifier st projectId"
    "botError (snd (handleSkillLoadingFailure u r ex name st)) projectId = botError st projectId"
  using assms by (simp_all add: handleSkillLoadingFailure_def setErrorOnBotProject_def Let_def)

text \<open>What a settlement stores for a project id depends only on what was stored for that id.\<close>

lemma settles_local:
  "projectMetaData s projectId = projectMetaData s' projectId \<Longrightarrow>
   projectMetaData (skillSettles n e s) projectId = projectMetaData (skillSettles n e s') projectId"
  "botDisplayName s projectId = botDisplayName s' projectId \<Longrightarrow>
   botDisplayName (skillSettles n e s) projectId = botDisplayName (skillSettles n e s') projectId"
  "botNameIdentifier s projectId = botNameIdentifier s' projectId \<Longrightarrow>
   botNameIdentifier (skillSettles n e s) projectId = botNameIdentifier (skillSettles n e s') projectId"
  "botError s projectId = botError s' projectId \<Longrightarrow>
   botError (skillSettles n e s) projectId = botError (skillSettles n e s') projectId"
  by (auto simp add: skillSettles_def catchCallback_eq maps_add handleSkillLoadingFailure_def
      setErrorOnBotProject_def Let_def split: settlement.splits option.splits)

text \<open>
  Claim C2 as stated fails: a bot-project file with one skill entry that has neither a
  workspace nor a manifest starts no load, so no project id is ever added to the root bot's
  and the loaded flag is never written.
\<close>

theorem loaded_never_written_for_broken_skill:
  "openRootBotAndSkills ''root'' ''/bots/root'' (Some [(''todo'', brokenSkill)]) emptySpace =
     (emptySpace\<lparr>botProjectIds := [''root'']\<rparr>, Inr (2, [])) \<and>
   loadedWrites (settleAll 2 [] (emptySpace\<lparr>botProjectIds := [''root'']\<rparr>)) = 0 \<and>
   \<not> botProjectSpaceLoaded (settleAll 2 [] (emptySpace\<lparr>botProjectIds := [''root'']\<rparr>))"
  by (simp add: openRootBotAndSkills_def startSkill_def brokenSkill_def present_def emptySpace_def)

text \<open>
  Claim C2, amended. With at least one skill, after any sequence of settled skill promises
  the loaded flag has been written at most once, and it has been written exactly when the
  number of collected project ids has reached the number of skills plus one; it is written
  exactly once when every skill entry starts a load and every load settles. With no skill it
  is written right after the root bot is loaded.
\<close>

theorem loaded_written_when_count_reaches_total:
  assumes "openRootBotAndSkills rootId location (Some skills) st = (st1, Inr (totalCount, pending))"
  shows "totalCount = length skills + 1 \<and>
    (skills = [] \<longrightarrow> loadedWrites st1 = loadedWrites st + 1 \<and> botProjectSpaceLoaded st1) \<and>
    (skills \<noteq> [] \<longrightarrow>
       loadedWrites (settleAll totalCount events st1) =
         loadedWrites st + (if totalCount \<le> length (botProjectIds (settleAll totalCount events st1)) then 1 else 0) \<and>
       botProjectSpaceLoaded (settleAll totalCount events st1) =
         (botProjectSpaceLoaded st \<or> totalCount \<le> length (botProjectIds (settleAll totalCount events st1))) \<and>
       (length pending = length skills \<and> length events = length pending \<longrightarrow>
          loadedWrites (settleAll totalCount events st1) = loadedWrites st + 1 \<and>
          botProjectSpaceLoaded (settleAll totalCount events st1)))"
proof (intro conjI impI)
  show "totalCount = length skills + 1" using open_some [OF assms] by simp
next
  assume "skills = []"
  then show "loadedWrites st1 = loadedWrites st + 1" using open_some [OF assms] by simp
next
  assume "skills = []"
  then show "botProjectSpaceLoaded st1" using open_some [OF assms] by simp
next
  assume "skills \<noteq> []"
  then have "counted totalCount (loadedWrites st) (botProjectSpaceLoaded st) (settleAll totalCount events st1)"
    using open_counted [OF assms] counted_settleAll by blast
  then show "loadedWrites (settleAll totalCount events st1) =
      loadedWrites st + (if totalCount \<le> length (botProjectIds (settleAll totalCount events st1)) then 1 else 0)"
    by (simp add: counted_def)
next
  assume "skills \<noteq> []"
  then have "counted totalCount (loadedWrites st) (botProjectSpaceLoaded st) (settleAll totalCount events st1)"
    using open_counted [OF assms] counted_settleAll by blast
  then show "botProjectSpaceLoaded (settleAll totalCount events st1) =
      (botProjectSpaceLoaded st \<or> totalCount \<le> length (botProjectIds (settleAll totalCount events st1)))"
    by (simp add: counted_def)
next
  assume ne: "skills \<noteq> []" and all: "length pending = length skills \<and> length events = length pending"
  have c: "counted totalCount (loadedWrites st) (botProjectSpaceLoaded st) (settleAll totalCount events st1)"
    using ne open_counted [OF assms] counted_settleAll by blast
  have "length (botProjectIds st1) = 1" using open_some [OF assms] by simp
  then have "totalCount \<le> length (botProjectIds (settleAll totalCount events st1))"
    using length_settleAll_ge [of st1 events totalCount] all open_some [OF assms] by simp
  then show "loadedWrites (settleAll totalCount events st1) = loadedWrites st + 1"
    and "botProjectSpaceLoaded (settleAll totalCount events st1)"
    using c by (simp_all add: counted_def)
qed

theorem loaded_written_when_count_reaches_total_witness:
  "loadedWrites (settleAll 2 [todoLoaded] (emptySpace\<lparr>botProjectIds := [''root'']\<rparr>)) = 1 \<and>
   botProjectSpaceLoaded (settleAll 2 [todoLoaded] (emptySpace\<lparr>botProjectIds := [''root'']\<rparr>))"
proof -
  have h: "openRootBotAndSkills ''root'' ''/bots/root'' (Some [(''todo'', localSkill)]) emptySpace =
      (emptySpace\<lparr>botProjectIds := [''root'']\<rparr>, Inr (2, [todoPromise]))"
    by (simp add: openRootBotAndSkills_def startSkill_def localSkill_def present_def todoPromise_def)
  have "[(''todo'', localSkill)] \<noteq> [] \<longrightarrow>
      (length [todoPromise] = length [(''todo'', localSkill)] \<and>
       length [todoLoaded] = length [todoPromise] \<longrightarrow>
       loadedWrites (settleAll 2 [todoLoaded] (emptySpace\<lparr>botProjectIds := [''root'']\<rparr>)) =
         loadedWrites emptySpace + 1 \<and>
       botProjectSpaceLoaded (settleAll 2 [todoLoaded] (emptySpace\<lparr>botProjectIds := [''root'']\<rparr>)))"
    using loaded_written_when_count_reaches_total [OF h, of "[todoLoaded]"] by blast
  moreover have "loadedWrites emptySpace = 0" by (simp add: emptySpace_def)
  ultimately show ?thesis by simp
qed

text \<open>
  Claim C3. When the load of a skill rejects, the \<^verbatim>\<open>catch\<close> callback stores a placeholder
  under the generated project id: meta data of a non-root project, display name and name
  identifier equal to the skill's name identifier, and the error (the body of its response
  when that carries a message) in the project's error atom; the generated id is appended to
  the collected project ids, so it counts toward the expected total. Nothing stored for
  another project id changes. A sibling that settles after the failure collects the same ids
  and stores the same entries as it would without the failure. In whatever order the failure
  and the settlements of the siblings arrive, the placeholder and every sibling are collected;
  every skill entry with a workspace or a manifest has its load started, whatever happens to
  the others; and when every entry has started a load and all of them have settled, one of
  them by this failure, the loaded flag has been written once.
\<close>

theorem rejected_skill_becomes_placeholder:
  assumes "outcome ev = Rejected ex"
  shows "(projectMetaData (skillSettles totalCount ev st) (generatedId ev) = Some (False, isRemote ev) \<and>
     botDisplayName (skillSettles totalCount ev st) (generatedId ev) = Some (nameIdentifier ev) \<and>
     botNameIdentifier (skillSettles totalCount ev st) (generatedId ev) = Some (nameIdentifier ev) \<and>
     botError (skillSettles totalCount ev st) (generatedId ev) = Some (errorPayload ex) \<and>
     botProjectIds (skillSettles totalCount ev st) = botProjectIds st @ [generatedId ev] \<and>
     loadedWrites (skillSettles totalCount ev st) =
       loadedWrites st + (if Suc (length (botProjectIds st)) = totalCount then 1 else 0)) \<and>
   (\<forall>projectId. projectId \<noteq> generatedId ev \<longrightarrow>
       projectMetaData (skillSettles totalCount ev st) projectId = projectMetaData st projectId \<and>
       botDisplayName (skillSettles totalCount ev st) projectId = botDisplayName st projectId \<and>
       botNameIdentifier (skillSettles totalCount ev st) projectId = botNameIdentifier st projectId \<and>
       botError (skillSettles totalCount ev st) projectId = botError st projectId) \<and>
   ((\<exists>added. botProjectIds (skillSettles totalCount sibling st) = botProjectIds st @ added \<and>
       botProjectIds (skillSettles totalCount sibling (skillSettles totalCount ev st)) =
         botProjectIds st @ generatedId ev # added) \<and>
    (\<forall>projectId. projectId \<noteq> generatedId ev \<longrightarrow>
       projectMetaData (skillSettles totalCount sibling (skillSettles totalCount ev st)) projectId =
         projectMetaData (skillSettles totalCount sibling st) projectId \<and>
       botDisplayName (skillSettles totalCount sibling (skillSettles totalCount ev st)) projectId =
         botDisplayName (skillSettles totalCount sibling st) projectId \<and>
       botNameIdentifier (skillSettles totalCount sibling (skillSettles totalCount ev st)) projectId =
         botNameIdentifier (skillSettles totalCount sibling st) projectId \<and>
       botError (skillSettles totalCount sibling (skillSettles totalCount ev st)) projectId =
         botError (skillSettles totalCount sibling st) projectId)) \<and>
   (generatedId ev \<in> set (botProjectIds (settleAll totalCount (before @ ev # after) st)) \<and>
    (\<forall>e\<in>set (before @ after).
       collectedId e \<in> set (botProjectIds (settleAll totalCount (before @ ev # after) st)))) \<and>
   (openRootBotAndSkills rootId location (Some skills) st0 = (st1, Inr (totalCount, pending)) \<and>
    (name, skill) \<in> set skills \<and>
    (\<not> remote skill \<and> present (workspace skill) \<or> present (manifest skill))
    \<longrightarrow> (\<exists>p\<in>set pending. nameIdentifier p = name)) \<and>
   (openRootBotAndSkills rootId location (Some skills) st0 = (st1, Inr (totalCount, pending)) \<and>
    length pending = length skills \<and> length (before @ ev # after) = length pending
    \<longrightarrow> botProjectSpaceLoaded (settleAll totalCount (before @ ev # after) st1) \<and>
        loadedWrites (settleAll totalCount (before @ ev # after) st1) = loadedWrites st0 + 1)"
proof -
  have eq: "skillSettles totalCount ev s = catchCallback totalCount ev ex s" for s
    using assms by (simp add: skillSettles_def)
  have placeholder:
    "projectMetaData (skillSettles totalCount ev st) (generatedId ev) = Some (False, isRemote ev) \<and>
     botDisplayName (skillSettles totalCount ev st) (generatedId ev) = Some (nameIdentifier ev) \<and>
     botNameIdentifier (skillSettles totalCount ev st) (generatedId ev) = Some (nameIdentifier ev) \<and>
     botError (skillSettles totalCount ev st) (generatedId ev) = Some (errorPayload ex) \<and>
     botProjectIds (skillSettles totalCount ev st) = botProjectIds st @ [generatedId ev] \<and>
     loadedWrites (skillSettles totalCount ev st) =
       loadedWrites st + (if Suc (length (botProjectIds st)) = totalCount then 1 else 0)"
    unfolding eq catchCallback_eq by (simp add: maps_add ids_add writes_add failure_fields)
  have frame: "\<forall>projectId. projectId \<noteq> generatedId ev \<longrightarrow>
       projectMetaData (skillSettles totalCount ev st) projectId = projectMetaData st projectId \<and>
       botDisplayName (skillSettles totalCount ev st) projectId = botDisplayName st projectId \<and>
       botNameIdentifier (skillSettles totalCount ev st) projectId = botNameIdentifier st projectId \<and>
       botError (skillSettles totalCount ev st) projectId = botError st projectId"
    unfolding eq catchCallback_eq by (simp add: maps_add failure_frame)
  have ids: "botProjectIds (skillSettles totalCount ev st) = botProjectIds st @ [generatedId ev]"
    using placeholder by simp
  have sibling_ids: "\<exists>added. botProjectIds (skillSettles totalCount sibling st) = botProjectIds st @ added \<and>
       botProjectIds (skillSettles totalCount sibling (skillSettles totalCount ev st)) =
         botProjectIds st @ generatedId ev # added"
    using ids by (simp add: ids_settles)
  have sibling_maps: "\<forall>projectId. projectId \<noteq> generatedId ev \<longrightarrow>
       projectMetaData (skillSettles totalCount sibling (skillSettles totalCount ev st)) projectId =
         projectMetaData (skillSettles totalCount sibling st) projectId \<and>
       botDisplayName (skillSettles totalCount sibling (skillSettles totalCount ev st)) projectId =
         botDisplayName (skillSettles totalCount sibling st) projectId \<and>
       botNameIdentifier (skillSettles totalCount sibling (skillSettles totalCount ev st)) projectId =
         botNameIdentifier (skillSettles totalCount sibling st) projectId \<and>
       botError (skillSettles totalCount sibling (skillSettles totalCount ev st)) projectId =
         botError (skillSettles totalCount sibling st) projectId"
  proof (intro allI impI)
    fix projectId
    assume "projectId \<noteq> generatedId ev"
    then have same: "projectMetaData (skillSettles totalCount ev st) projectId = projectMetaData st projectId"
      "botDisplayName (skillSettles totalCount ev st) projectId = botDisplayName st projectId"
      "botNameIdentifier (skillSettles totalCount ev st) projectId = botNameIdentifier st projectId"
      "botError (skillSettles totalCount ev st) projectId = botError st projectId"
      using frame by simp_all
    show "projectMetaData (skillSettles totalCount sibling (skillSettles totalCount ev st)) projectId =
         projectMetaData (skillSettles totalCount sibling st) projectId \<and>
       botDisplayName (skillSettles totalCount sibling (skillSettles totalCount ev st)) projectId =
         botDisplayName (skillSettles totalCount sibling st) projectId \<and>
       botNameIdentifier (skillSettles totalCount sibling (skillSettles totalCount ev st)) projectId =
         botNameIdentifier (skillSettles totalCount sibling st) projectId \<and>
       botError (skillSettles totalCount sibling (skillSettles totalCount ev st)) projectId =
         botError (skillSettles totalCount sibling st) projectId"
      using settles_local(1) [OF same(1)] settles_local(2) [OF same(2)]
        settles_local(3) [OF same(3)] settles_local(4) [OF same(4)]
      by (intro conjI)
  qed
  have c: "collectedId ev = generatedId ev" using assms by simp
  have collected: "generatedId ev \<in> set (botProjectIds (settleAll totalCount (before @ ev # after) st)) \<and>
       (\<forall>e\<in>set (before @ after).
          collectedId e \<in> set (botProjectIds (settleAll totalCount (before @ ev # after) st)))"
  proof
    have "collectedId ev \<in> set (botProjectIds (settleAll totalCount (before @ ev # after) st))"
      by (rule collected_settleAll) simp
    then show "generatedId ev \<in> set (botProjectIds (settleAll totalCount (before @ ev # after) st))"
      using c by simp
    show "\<forall>e\<in>set (before @ after).
          collectedId e \<in> set (botProjectIds (settleAll totalCount (before @ ev # after) st))"
    proof
      fix e
      assume "e \<in> set (before @ after)"
      then have "e \<in> set (before @ ev # after)" by auto
      then show "collectedId e \<in> set (botProjectIds (settleAll totalCount (before @ ev # after) st))"
        by (rule collected_settleAll)
    qed
  qed
  have started: "openRootBotAndSkills rootId location (Some skills) st0 = (st1, Inr (totalCount, pending)) \<and>
       (name, skill) \<in> set skills \<and>
       (\<not> remote skill \<and> present (workspace skill) \<or> present (manifest skill))
       \<longrightarrow> (\<exists>p\<in>set pending. nameIdentifier p = name)"
  proof
    assume a: "openRootBotAndSkills rootId location (Some skills) st0 = (st1, Inr (totalCount, pending)) \<and>
       (name, skill) \<in> set skills \<and>
       (\<not> remote skill \<and> present (workspace skill) \<or> present (manifest skill))"
    then have opened: "openRootBotAndSkills rootId location (Some skills) st0 =
        (st1, Inr (totalCount, pending))" by simp
    have "skills \<noteq> []" using a by auto
    then have pending: "pending = startSkills location skills"
      using open_some [OF opened] by simp
    obtain p where p: "startSkill location name skill = Some p" "nameIdentifier p = name"
      using startSkill_openable a by blast
    then have "p \<in> set pending" using startSkills_member a pending by blast
    then show "\<exists>p\<in>set pending. nameIdentifier p = name" using p by blast
  qed
  have loaded: "openRootBotAndSkills rootId location (Some skills) st0 = (st1, Inr (totalCount, pending)) \<and>
       length pending = length skills \<and> length (before @ ev # after) = length pending
       \<longrightarrow> botProjectSpaceLoaded (settleAll totalCount (before @ ev # after) st1) \<and>
           loadedWrites (settleAll totalCount (before @ ev # after) st1) = loadedWrites st0 + 1"
  proof
    assume a: "openRootBotAndSkills rootId location (Some skills) st0 = (st1, Inr (totalCount, pending)) \<and>
       length pending = length skills \<and> length (before @ ev # after) = length pending"
    then have opened: "openRootBotAndSkills rootId location (Some skills) st0 =
        (st1, Inr (totalCount, pending))" by simp
    have ne: "skills \<noteq> []" using a by auto
    let ?final = "settleAll totalCount (before @ ev # after) st1"
    have cnt: "counted totalCount (loadedWrites st0) (botProjectSpaceLoaded st0) ?final"
      using ne open_counted [OF opened] counted_settleAll by blast
    have "length (botProjectIds st1) = 1" and "totalCount = length skills + 1"
      using open_some [OF opened] ne by simp_all
    then have "totalCount \<le> length (botProjectIds ?final)"
      using length_settleAll_ge [of st1 "before @ ev # after" totalCount] a by simp
    then show "botProjectSpaceLoaded ?final \<and> loadedWrites ?final = loadedWrites st0 + 1"
      using cnt by (simp add: counted_def)
  qed
  show ?thesis
    by (rule conjI [OF placeholder conjI [OF frame conjI [OF conjI [OF sibling_ids sibling_maps]
          conjI [OF collected conjI [OF started loaded]]]]])
qed

theorem rejected_skill_becomes_placeholder_witness:
  "botError (skillSettles 3 todoFailed (emptySpace\<lparr>botProjectIds := [''root'']\<rparr>)) ''u1'' =
     Some networkError \<and>
   botDisplayName (skillSettles 3 todoFailed (emptySpace\<lparr>botProjectIds := [''root'']\<rparr>)) ''u1'' =
     Some ''todo'' \<and>
   botProjectIds (skillSettles 3 todoFailed (emptySpace\<lparr>botProjectIds := [''root'']\<rparr>)) =
     [''root'', ''u1''] \<and>
   ''u1'' \<in> set (botProjectIds
      (settleAll 3 [todoFailed, newsLoaded] (emptySpace\<lparr>botProjectIds := [''root'']\<rparr>))) \<and>
   collectedId newsLoaded \<in> set (botProjectIds
      (settleAll 3 [todoFailed, newsLoaded] (emptySpace\<lparr>botProjectIds := [''root'']\<rparr>))) \<and>
   botProjectSpaceLoaded
     (settleAll 3 [todoFailed, newsLoaded] (emptySpace\<lparr>botProjectIds := [''root'']\<rparr>)) \<and>
   loadedWrites
     (settleAll 3 [todoFailed, newsLoaded] (emptySpace\<lparr>botProjectIds := [''root'']\<rparr>)) = 1"
proof -
  let ?st1 = "emptySpace\<lparr>botProjectIds := [''root'']\<rparr>"
  have r: "outcome todoFailed = Rejected networkError" by (simp add: todoFailed_def)
  have h: "openRootBotAndSkills ''root'' ''/bots/root''
        (Some [(''todo'', localSkill), (''news'', remoteSkill)]) emptySpace =
      (?st1, Inr (3, [todoPromise, newsPromise]))"
    by (simp add: openRootBotAndSkills_def startSkill_def localSkill_def remoteSkill_def
        present_def todoPromise_def newsPromise_def)
  note t = rejected_skill_becomes_placeholder [where ev = todoFailed and ex = networkError
      and totalCount = 3 and st = ?st1 and sibling = newsLoaded and before = "[]"
      and after = "[newsLoaded]" and rootId = "''root''" and location = "''/bots/root''"
      and skills = "[(''todo'', localSkill), (''news'', remoteSkill)]" and ?st0.0 = emptySpace
      and ?st1.0 = ?st1 and pending = "[todoPromise, newsPromise]", OF r]
  have e: "errorPayload networkError = networkError"
    by (simp add: errorPayload_def optMember_def networkError_def getProp_def)
  have g: "generatedId todoFailed = ''u1''" "nameIdentifier todoFailed = ''todo''"
    by (simp_all add: todoFailed_def)
  have w: "loadedWrites emptySpace = 0" "botProjectIds ?st1 = [''root'']"
    by (simp_all add: emptySpace_def)
  have p: "botError (skillSettles 3 todoFailed ?st1) ''u1'' = Some networkError"
    "botDisplayName (skillSettles 3 todoFailed ?st1) ''u1'' = Some ''todo''"
    "botProjectIds (skillSettles 3 todoFailed ?st1) = [''root'', ''u1'']"
    using t [THEN conjunct1] e g w by simp_all
  have c: "''u1'' \<in> set (botProjectIds (settleAll 3 [todoFailed, newsLoaded] ?st1))"
    "collectedId newsLoaded \<in> set (botProjectIds (settleAll 3 [todoFailed, newsLoaded] ?st1))"
    using t [THEN conjunct2, THEN conjunct2, THEN conjunct2, THEN conjunct1] g by simp_all
  have l: "botProjectSpaceLoaded (settleAll 3 [todoFailed, newsLoaded] ?st1)"
    "loadedWrites (settleAll 3 [todoFailed, newsLoaded] ?st1) = 1"
    using t [THEN conjunct2, THEN conjunct2, THEN conjunct2, THEN conjunct2, THEN conjunct2] h w
    by simp_all
  show ?thesis using p c l by (intro conjI)
qed

text \<open>
  Claim C9 as stated fails: the loaded flag can be set although an entry cannot be opened.
  The bot-project file has two entries, \<open>todo\<close> with a workspace and \<open>lost\<close> with neither a
  workspace nor a manifest, so the expected total is three and one load is started. The load
  of \<open>todo\<close> returns project \<open>p2\<close>, which the \<^verbatim>\<open>then\<close> callback adds; a later step of that
  callback throws, so the \<^verbatim>\<open>catch\<close> callback chained after it adds a placeholder \<open>u1\<close> as
  well. The collected ids are then three and the flag is set.
\<close>

theorem loaded_set_despite_broken_skill:
  "\<not> present (workspace brokenSkill) \<and> \<not> present (manifest brokenSkill) \<and>
   openRootBotAndSkills ''root'' ''/bots/root''
       (Some [(''todo'', localSkill), (''lost'', brokenSkill)]) emptySpace =
     (emptySpace\<lparr>botProjectIds := [''root'']\<rparr>, Inr (3, [todoPromise])) \<and>
   skillPromise.truncate todoThrows = todoPromise \<and>
   outcome todoThrows = Fulfilled ''p2'' (Some typeError) \<and>
   botProjectIds (settleAll 3 [todoThrows] (emptySpace\<lparr>botProjectIds := [''root'']\<rparr>)) =
     [''root'', ''p2'', ''u1''] \<and>
   loadedWrites (settleAll 3 [todoThrows] (emptySpace\<lparr>botProjectIds := [''root'']\<rparr>)) = 1 \<and>
   botProjectSpaceLoaded (settleAll 3 [todoThrows] (emptySpace\<lparr>botProjectIds := [''root'']\<rparr>))"
  by (simp add: openRootBotAndSkills_def startSkill_def localSkill_def brokenSkill_def
      present_def todoPromise_def todoThrows_def skillPromise.truncate_def emptySpace_def
      skillSettles_def catchCallback_eq addProjectToBotProjectSpace_def
      handleSkillLoadingFailure_def setErrorOnBotProject_def Let_def)

text \<open>
  Claim C9, amended. If a skill entry can be opened neither locally nor remotely, no load is
  started and no settlement arrives for it; and when, in addition, every \<^verbatim>\<open>then\<close> callback
  of the skills that did load returns normally, the collected project ids stay fewer than
  the expected total and the loaded flag is never written. The skill names are the keys of an
  object, hence distinct.
\<close>

theorem unopenable_skill_never_loaded:
  assumes "openRootBotAndSkills rootId location (Some skills) st = (st1, Inr (totalCount, pending))"
    and "(name, skill) \<in> set skills"
    and "(remote skill \<or> \<not> present (workspace skill)) \<and> \<not> present (manifest skill)"
    and "distinct (map fst skills)"
    and "schedule pending events"
  shows "name \<notin> nameIdentifier ` set pending \<and> name \<notin> nameIdentifier ` set events \<and>
    ((\<forall>ev\<in>set events. callbackReturns (outcome ev)) \<longrightarrow>
       length (botProjectIds (settleAll totalCount events st1)) < totalCount \<and>
       loadedWrites (settleAll totalCount events st1) = loadedWrites st \<and>
       botProjectSpaceLoaded (settleAll totalCount events st1) = botProjectSpaceLoaded st)"
proof -
  have none: "startSkill location name skill = None"
    using assms(3) by (auto simp: startSkill_def)
  have ne: "skills \<noteq> []" using assms(2) by auto
  then have pending: "pending = startSkills location skills"
    and totalCount: "totalCount = length skills + 1"
    and ids1: "botProjectIds st1 = [rootId]"
    using open_some [OF assms(1)] by simp_all
  have not_pending: "name \<notin> nameIdentifier ` set pending"
  proof
    assume "name \<in> nameIdentifier ` set pending"
    then obtain p where p: "p \<in> set (startSkills location skills)" "nameIdentifier p = name"
      using pending by auto
    then obtain skill' where s': "(name, skill') \<in> set skills"
        "startSkill location name skill' = Some p"
      using startSkills_origin by blast
    have "skill' = skill"
      using assms(4) assms(2) s'(1) by (meson eq_key_imp_eq_value)
    then show False using s'(2) none by simp
  qed
  have not_event: "name \<notin> nameIdentifier ` set events"
  proof
    assume "name \<in> nameIdentifier ` set events"
    then obtain ev where ev: "ev \<in> set events" "nameIdentifier ev = name" by auto
    then have "skillPromise.truncate ev \<in> set pending" using assms(5) by (simp add: schedule_def)
    moreover have "nameIdentifier (skillPromise.truncate ev) = name"
      using ev by (simp add: skillPromise.truncate_def)
    ultimately show False using not_pending by force
  qed
  have never: "length (botProjectIds (settleAll totalCount events st1)) < totalCount \<and>
       loadedWrites (settleAll totalCount events st1) = loadedWrites st \<and>
       botProjectSpaceLoaded (settleAll totalCount events st1) = botProjectSpaceLoaded st"
    if returns: "\<forall>ev\<in>set events. callbackReturns (outcome ev)"
  proof -
    have "length events \<le> length pending" using assms(5) by (rule schedule_length)
    moreover have "length pending < length skills"
      using pending startSkills_length_less [OF assms(2) none] by simp
    moreover have "length (botProjectIds (settleAll totalCount events st1)) = 1 + length events"
      using length_settleAll_returns [OF returns, of totalCount st1] ids1 by simp
    ultimately have less: "length (botProjectIds (settleAll totalCount events st1)) < totalCount"
      using totalCount by simp
    have "counted totalCount (loadedWrites st) (botProjectSpaceLoaded st) (settleAll totalCount events st1)"
      using ne open_counted [OF assms(1)] counted_settleAll by blast
    then show ?thesis using less by (simp add: counted_def)
  qed
  show ?thesis using not_pending not_event never by blast
qed

theorem unopenable_skill_never_loaded_witness:
  "''lost'' \<notin> nameIdentifier ` set [todoPromise] \<and>
   loadedWrites (settleAll 3 [todoLoaded] (emptySpace\<lparr>botProjectIds := [''root'']\<rparr>)) = 0 \<and>
   \<not> botProjectSpaceLoaded (settleAll 3 [todoLoaded] (emptySpace\<lparr>botProjectIds := [''root'']\<rparr>)) \<and>
   length (botProjectIds (settleAll 3 [todoLoaded] (emptySpace\<lparr>botProjectIds := [''root'']\<rparr>))) < 3"
proof -
  have h: "openRootBotAndSkills ''root'' ''/bots/root''
        (Some [(''todo'', localSkill), (''lost'', brokenSkill)]) emptySpace =
      (emptySpace\<lparr>botProjectIds := [''root'']\<rparr>, Inr (3, [todoPromise]))"
    by (simp add: openRootBotAndSkills_def startSkill_def localSkill_def brokenSkill_def
        present_def todoPromise_def)
  have m: "(''lost'', brokenSkill) \<in> set [(''todo'', localSkill), (''lost'', brokenSkill)]"
    by simp
  have b: "(remote brokenSkill \<or> \<not> present (workspace brokenSkill)) \<and>
      \<not> present (manifest brokenSkill)"
    by (simp add: brokenSkill_def present_def)
  have d: "distinct (map fst [(''todo'', localSkill), (''lost'', brokenSkill)])"
    by simp
  have s: "schedule [todoPromise] [todoLoaded]"
    by (simp add: schedule_def todoPromise_def todoLoaded_def skillPromise.truncate_def)
  have c: "\<forall>ev\<in>set [todoLoaded]. callbackReturns (outcome ev)"
    by (simp add: todoLoaded_def)
  note t = unopenable_skill_never_loaded [OF h m b d s]
  have "''lost'' \<notin> nameIdentifier ` set [todoPromise]" using t by blast
  moreover have "length (botProjectIds (settleAll 3 [todoLoaded] (emptySpace\<lparr>botProjectIds := [''root'']\<rparr>))) < 3 \<and>
       loadedWrites (settleAll 3 [todoLoaded] (emptySpace\<lparr>botProjectIds := [''root'']\<rparr>)) = loadedWrites emptySpace \<and>
       botProjectSpaceLoaded (settleAll 3 [todoLoaded] (emptySpace\<lparr>botProjectIds := [''root'']\<rparr>)) =
         botProjectSpaceLoaded emptySpace"
    using t c by blast
  moreover have "loadedWrites emptySpace = 0" "\<not> botProjectSpaceLoaded emptySpace"
    by (simp_all add: emptySpace_def)
  ultimately show ?thesis by simp
qed

end
